theory Spec2Isabelle
  imports Main "HOL-Library.Word"
begin

unbundle bit_operations_syntax

section \<open>Basic types, errors and the byte reader\<close>

text \<open>
  Go's \<open>byte\<close> and \<open>uint64\<close> are words; \<open>protocol.ByteCount\<close> and
  \<open>protocol.StreamID\<close> are \<open>int64\<close> in Go and are unbounded integers here (no claim
  depends on their overflow); the conversion \<open>uint64(x)\<close> of such a value is
  \<open>uint64_of\<close>, which wraps a negative value as Go does.

  Every error return and every panic of the source is a value of \<open>error\<close>; a function
  that can fail returns \<open>error + 'a\<close> with \<open>Inl\<close> for the failure.
\<close>

type_synonym byte = "8 word"
type_synonym uint64 = "64 word"

datatype error =
    EOF
  | ErrUnexpectedEOF
  | ErrEmptyFrameWithoutFIN
  | ErrDataOverflowsMaximumOffset
  | ErrUnknownDataLength
  | ErrWriteOnClosedStream int
  | ErrWriteCanceled int nat
  | ErrStreamError int nat
  | ErrCloseCanceledStream int
  | ErrDeadline
  | ErrShutdown nat
  | PanicNilDereference
  | PanicSliceBounds
  | PanicVarintTooLarge
  | PanicOutstandingNegative

definition andThen :: "error + 'a \<Rightarrow> ('a \<Rightarrow> error + 'b) \<Rightarrow> error + 'b" where
  "andThen x f = (case x of Inl e \<Rightarrow> Inl e | Inr v \<Rightarrow> f v)"

definition uint64_of :: "int \<Rightarrow> uint64" where
  "uint64_of x = word_of_int x"

definition int64_of :: "uint64 \<Rightarrow> int" where
  "int64_of w = sint w"

text \<open>A \<open>bytes.Reader\<close> is the list of the bytes not read yet.\<close>

definition ReadByte :: "byte list \<Rightarrow> error + byte \<times> byte list" where
  "ReadByte r = (case r of [] \<Rightarrow> Inl EOF | b # r' \<Rightarrow> Inr (b, r'))"

text \<open>\<open>io.ReadFull(r, buf)\<close> with \<open>len(buf) = n\<close>: all \<open>n\<close> bytes, or \<open>EOF\<close> when
  nothing could be read, or \<open>ErrUnexpectedEOF\<close> when the reader ran dry part-way.\<close>

definition ReadFull :: "byte list \<Rightarrow> nat \<Rightarrow> error + byte list \<times> byte list" where
  "ReadFull r n =
     (if n \<le> length r then Inr (take n r, drop n r)
      else if r = [] then Inl EOF else Inl ErrUnexpectedEOF)"

section \<open>Variable-length integers\<close>

text \<open>
  Modelled from the spec: the \<open>quicvarint\<close> package (\<open>Len\<close>, \<open>Append\<close>, \<open>Read\<close>) is
  not among the sources. The spec calls these fields varints, QUIC's variable-length
  integers: the two high bits of the first byte give the length (1, 2, 4 or 8 bytes), the
  remaining bits hold the value in network byte order, and a value above \<open>2^62 - 1\<close>
  cannot be encoded (the library panics).
\<close>

definition maxVarInt1 :: uint64 where "maxVarInt1 = 63"
definition maxVarInt2 :: uint64 where "maxVarInt2 = 16383"
definition maxVarInt4 :: uint64 where "maxVarInt4 = 1073741823"
definition maxVarInt8 :: uint64 where "maxVarInt8 = 4611686018427387903"

definition quicvarint_Len :: "uint64 \<Rightarrow> error + int" where
  "quicvarint_Len i =
     (if i \<le> maxVarInt1 then Inr 1
      else if i \<le> maxVarInt2 then Inr 2
      else if i \<le> maxVarInt4 then Inr 4
      else if i \<le> maxVarInt8 then Inr 8
      else Inl PanicVarintTooLarge)"

definition quicvarint_Append :: "byte list \<Rightarrow> uint64 \<Rightarrow> error + byte list" where
  "quicvarint_Append b i =
     (if i \<le> maxVarInt1 then Inr (b @ [ucast i])
      else if i \<le> maxVarInt2 then
        Inr (b @ [ucast (drop_bit 8 i) OR 0x40, ucast i])
      else if i \<le> maxVarInt4 then
        Inr (b @ [ucast (drop_bit 24 i) OR 0x80, ucast (drop_bit 16 i),
                  ucast (drop_bit 8 i), ucast i])
      else if i \<le> maxVarInt8 then
        Inr (b @ [ucast (drop_bit 56 i) OR 0xc0, ucast (drop_bit 48 i),
                  ucast (drop_bit 40 i), ucast (drop_bit 32 i),
                  ucast (drop_bit 24 i), ucast (drop_bit 16 i),
                  ucast (drop_bit 8 i), ucast i])
      else Inl PanicVarintTooLarge)"

text \<open>\<open>be_value acc bs\<close> is the big-endian value of the bytes \<open>bs\<close> after the
  already accumulated high part \<open>acc\<close>.\<close>

fun be_value :: "uint64 \<Rightarrow> byte list \<Rightarrow> uint64" where
  "be_value acc [] = acc"
| "be_value acc (b # bs) = be_value (push_bit 8 acc + ucast b) bs"

definition quicvarint_Read :: "byte list \<Rightarrow> error + uint64 \<times> byte list" where
  "quicvarint_Read r =
     andThen (ReadByte r) (\<lambda>(firstByte, r1).
       let len = (2::nat) ^ unat (drop_bit 6 (firstByte AND 0xc0));
           b1 = firstByte AND (0xff - 0xc0)
       in if length r1 < len - 1 then Inl EOF
          else Inr (be_value (ucast b1) (take (len - 1) r1), drop (len - 1) r1))"

section \<open>Protocol constants\<close>

text \<open>
  Modelled from the spec: the \<open>protocol\<close> package is not among the sources. The spec
  names a maximum packet buffer size (the capacity of every pooled frame buffer) and a
  protocol-defined maximum final offset without giving their values; the values below are
  those of the QUIC implementation this repository extends. No theorem below depends on
  them except through \<open>0 < MaxPacketBufferSize\<close>.
\<close>

definition MaxPacketBufferSize :: int where "MaxPacketBufferSize = 1452"
definition MinStreamFrameBufferSize :: int where "MinStreamFrameBufferSize = 128"
definition MaxByteCount :: int where "MaxByteCount = 2 ^ 62 - 1"

section \<open>The PR\_STREAM frame (internal/wire/pr\_stream\_frame.go)\<close>

text \<open>
  The struct \<open>PRStreamFrame\<close>. Field names carry the prefix \<open>prs_\<close> because the
  other frame structs have fields of the same names. \<open>prs_ptdaC\<close> is the field the
  wire package spells \<open>ptdaC\<close> and the stream code spells \<open>PtdaC\<close>.
\<close>

record PRStreamFrame =
  prs_StreamID :: int
  prs_Offset :: int
  prs_Data :: "byte list"
  prs_Fin :: bool
  prs_DataLenPresent :: bool
  prs_PTDA :: byte
  prs_P :: bool
  prs_T :: bool
  prs_D :: bool
  prs_A :: bool
  prs_ptdaC :: uint64
  prs_fromPool :: bool

text \<open>\<open>GetPRStreamFrame\<close> takes a frame from the pool: an empty data slice of capacity
  \<open>MaxPacketBufferSize\<close> and \<open>fromPool\<close> set. (A recycled frame may carry stale
  values in its other fields; every caller overwrites the fields it uses.)\<close>

definition GetPRStreamFrame :: PRStreamFrame where
  "GetPRStreamFrame =
     \<lparr>prs_StreamID = 0, prs_Offset = 0, prs_Data = [], prs_Fin = False,
      prs_DataLenPresent = False, prs_PTDA = 0, prs_P = False, prs_T = False,
      prs_D = False, prs_A = False, prs_ptdaC = 0, prs_fromPool = True\<rparr>"

text \<open>A store through, or a load from, a frame pointer: a nil pointer panics.\<close>

definition deref :: "'a option \<Rightarrow> error + 'a" where
  "deref p = (case p of None \<Rightarrow> Inl PanicNilDereference | Some x \<Rightarrow> Inr x)"

definition PRStreamFrame_DataLen :: "PRStreamFrame \<Rightarrow> int" where
  "PRStreamFrame_DataLen f = int (length (prs_Data f))"

text \<open>
  \<open>parsePRStreamFrame\<close>. The variable \<open>frame\<close> is declared as a nil pointer
  (\<open>var frame *PRStreamFrame\<close>) and the next statement stores the byte just read into
  \<open>frame.PTDA\<close>; the store happens before \<open>err\<close> is looked at. The frame is
  only allocated further down, by an assignment that replaces the pointer.
\<close>

definition parsePRStreamFrame :: "byte list \<Rightarrow> error + PRStreamFrame \<times> byte list" where
  "parsePRStreamFrame r0 =
     andThen (ReadByte r0) (\<lambda>(typeByte, r1).
     let hasOffset = (typeByte AND 0b100 > 0);
         fin = (typeByte AND 0b1 > 0);
         hasDataLen = (typeByte AND 0b10 > 0) in
     andThen (quicvarint_Read r1) (\<lambda>(streamID, r2).
     andThen (if hasOffset then quicvarint_Read r2 else Inr (0, r2)) (\<lambda>(offset, r3).
     andThen (if hasDataLen then quicvarint_Read r3
              else Inr (of_nat (length r3), r3)) (\<lambda>(dataLen, r4).
     let frame = (None :: PRStreamFrame option);
         res = ReadByte r4 in
     andThen (deref frame) (\<lambda>fr0.
     andThen res (\<lambda>(ptda, r5).
     let fr1 = fr0\<lparr>prs_PTDA := ptda\<rparr>;
         m = prs_PTDA fr1 AND 0xf0;
         fr2 = (if m = 0x10 then fr1\<lparr>prs_A := True\<rparr>
                else if m = 0x20 then fr1\<lparr>prs_D := True\<rparr>
                else if m = 0x40 then fr1\<lparr>prs_T := True\<rparr>
                else if m = 0x80 then fr1\<lparr>prs_P := True\<rparr>
                else fr1);
         res' = quicvarint_Read r5 in
     andThen res' (\<lambda>(c, r6).
     let fr3 = fr2\<lparr>prs_ptdaC := c\<rparr> in
     andThen (if uint dataLen < MinStreamFrameBufferSize
              then Inr (GetPRStreamFrame\<lparr>prs_Data := replicate (unat dataLen) 0,
                                         prs_fromPool := False\<rparr>)
              else if uint dataLen > MaxPacketBufferSize then Inl EOF
              else Inr (GetPRStreamFrame\<lparr>prs_Data := replicate (unat dataLen) 0\<rparr>))
       (\<lambda>fr4.
     let fr5 = fr4\<lparr>prs_StreamID := int64_of streamID, prs_Offset := int64_of offset,
                     prs_Fin := fin, prs_DataLenPresent := hasDataLen\<rparr> in
     andThen (if dataLen \<noteq> 0 then ReadFull r6 (length (prs_Data fr5))
              else Inr (prs_Data fr5, r6)) (\<lambda>(d, r7).
     let fr6 = fr5\<lparr>prs_Data := d\<rparr> in
     if prs_Offset fr6 + PRStreamFrame_DataLen fr6 > MaxByteCount
     then Inl ErrDataOverflowsMaximumOffset
     else Inr (fr6, r7))))))))))"

text \<open>\<open>Append\<close> writes the frame after \<open>b\<close>. The type byte starts from \<open>0x8\<close>;
  \<open>ptdaC\<close> is written as the single byte \<open>byte(f.ptdaC)\<close>.\<close>

definition PRStreamFrame_Append :: "PRStreamFrame \<Rightarrow> byte list \<Rightarrow> error + byte list" where
  "PRStreamFrame_Append f b =
     (if length (prs_Data f) = 0 \<and> \<not> prs_Fin f then Inl ErrEmptyFrameWithoutFIN
      else
        let typeByte = (0x8 :: byte);
            typeByte = (if prs_Fin f then typeByte XOR 0b1 else typeByte);
            hasOffset = (prs_Offset f \<noteq> 0);
            typeByte = (if prs_DataLenPresent f then typeByte XOR 0b10 else typeByte);
            typeByte = (if hasOffset then typeByte XOR 0b100 else typeByte);
            b = b @ [typeByte] in
        andThen (quicvarint_Append b (uint64_of (prs_StreamID f))) (\<lambda>b.
        andThen (if hasOffset then quicvarint_Append b (uint64_of (prs_Offset f))
                 else Inr b) (\<lambda>b.
        andThen (if prs_DataLenPresent f
                 then quicvarint_Append b (uint64_of (PRStreamFrame_DataLen f))
                 else Inr b) (\<lambda>b.
        let b = b @ [prs_PTDA f];
            b = b @ [ucast (prs_ptdaC f)];
            b = b @ prs_Data f in
        Inr b))))"

definition PRStreamFrame_Length :: "PRStreamFrame \<Rightarrow> error + int" where
  "PRStreamFrame_Length f =
     andThen (quicvarint_Len (uint64_of (prs_StreamID f))) (\<lambda>l.
     let length = 1 + l in
     andThen (if prs_Offset f \<noteq> 0
              then andThen (quicvarint_Len (uint64_of (prs_Offset f))) (\<lambda>l. Inr (length + l))
              else Inr length) (\<lambda>length.
     andThen (if prs_DataLenPresent f
              then andThen (quicvarint_Len (uint64_of (PRStreamFrame_DataLen f)))
                     (\<lambda>l. Inr (length + l))
              else Inr length) (\<lambda>length.
     let length = length + 1 in
     andThen (quicvarint_Len (prs_ptdaC f)) (\<lambda>l.
     let length = length + l in
     Inr (length + PRStreamFrame_DataLen f)))))"

definition PRStreamFrame_MaxDataLen :: "PRStreamFrame \<Rightarrow> int \<Rightarrow> error + int" where
  "PRStreamFrame_MaxDataLen f maxSize =
     andThen (quicvarint_Len (uint64_of (prs_StreamID f))) (\<lambda>l.
     let headerLen = 1 + l in
     andThen (if prs_Offset f \<noteq> 0
              then andThen (quicvarint_Len (uint64_of (prs_Offset f)))
                     (\<lambda>l. Inr (headerLen + l))
              else Inr headerLen) (\<lambda>headerLen.
     let headerLen = (if prs_DataLenPresent f then headerLen + 1 else headerLen) in
     if headerLen > maxSize then Inr 0
     else
       let headerLen = headerLen - 1 in
       andThen (quicvarint_Len (prs_ptdaC f)) (\<lambda>l.
       let headerLen = headerLen - l;
           maxDataLen = maxSize - headerLen in
       if prs_DataLenPresent f
       then andThen (quicvarint_Len (uint64_of maxDataLen)) (\<lambda>l.
              Inr (if l \<noteq> 1 then maxDataLen - 1 else maxDataLen))
       else Inr maxDataLen)))"

text \<open>
  \<open>MaybeSplitOffFrame\<close> returns the new frame (or nil), whether splitting was required,
  and, as third component, the receiver \<open>f\<close> as the call leaves it. The new frame's
  buffer comes from the pool (length 0, capacity \<open>MaxPacketBufferSize\<close>) and is swapped
  with the receiver's; re-slicing it to \<open>len(new.Data) - n\<close> panics when that is
  negative or above the capacity, and \<open>new.Data[n:]\<close> panics when \<open>n\<close> is out of range.
\<close>

definition PRStreamFrame_MaybeSplitOffFrame ::
    "PRStreamFrame \<Rightarrow> int \<Rightarrow> error + PRStreamFrame option \<times> bool \<times> PRStreamFrame" where
  "PRStreamFrame_MaybeSplitOffFrame f maxSize =
     andThen (PRStreamFrame_Length f) (\<lambda>len.
     if maxSize \<ge> len then Inr (None, False, f)
     else
       andThen (PRStreamFrame_MaxDataLen f maxSize) (\<lambda>n.
       if n = 0 then Inr (None, True, f)
       else
         let new = GetPRStreamFrame;
             new = new\<lparr>prs_StreamID := prs_StreamID f, prs_Offset := prs_Offset f,
                       prs_Fin := False, prs_DataLenPresent := prs_DataLenPresent f\<rparr>;
             new = new\<lparr>prs_PTDA := prs_PTDA f, prs_P := prs_P f, prs_T := prs_T f,
                       prs_D := prs_D f, prs_A := prs_A f, prs_ptdaC := prs_ptdaC f\<rparr>;
             newData = prs_Data f; newPool = prs_fromPool f;
             f = f\<lparr>prs_Data := prs_Data new, prs_fromPool := prs_fromPool new\<rparr>;
             new = new\<lparr>prs_Data := newData, prs_fromPool := newPool\<rparr>;
             k = int (length (prs_Data new)) - n in
         if k < 0 \<or> k > MaxPacketBufferSize \<or> n < 0 then Inl PanicSliceBounds
         else
           let f = f\<lparr>prs_Data := drop (nat n) (prs_Data new)\<rparr>;
               new = new\<lparr>prs_Data := take (nat n) (prs_Data new)\<rparr>;
               f = f\<lparr>prs_Offset := prs_Offset f + n\<rparr> in
           Inr (Some new, True, f)))"

section \<open>The PR\_ACK\_NOTIFY frame\<close>

text \<open>
  The struct \<open>PRAckNotifyFrame\<close> (fields prefixed \<open>pan_\<close>). The sources hold two
  versions of its file. The first is the one the stream code is written against (its
  policy parameter is the exported field \<open>PtdaC\<close>, and it has no \<open>fromPool\<close> field);
  its functions are modelled below under their own names. Of the second version only
  \<open>Append\<close> is modelled, as \<open>PRAckNotifyFrame_Append_second\<close>.
\<close>

record PRAckNotifyFrame =
  pan_StreamID :: int
  pan_Offset :: int
  pan_PRDataLen :: uint64
  pan_Fin :: bool
  pan_DataLenPresent :: bool
  pan_PTDA :: byte
  pan_P :: bool
  pan_T :: bool
  pan_D :: bool
  pan_A :: bool
  pan_PtdaC :: uint64

definition parsePRAckNotifyFrame :: "byte list \<Rightarrow> error + PRAckNotifyFrame \<times> byte list" where
  "parsePRAckNotifyFrame r0 =
     andThen (ReadByte r0) (\<lambda>(typeByte, r1).
     let hasOffset = (typeByte AND 0b100 > 0);
         fin = (typeByte AND 0b1 > 0);
         hasDataLen = (typeByte AND 0b10 > 0) in
     andThen (quicvarint_Read r1) (\<lambda>(streamID, r2).
     andThen (ReadByte r2) (\<lambda>(PTDA, r3).
     let m = PTDA AND 0xf0;
         A = (m = 0x10); D = (m = 0x20); T = (m = 0x40); P = (m = 0x80) in
     andThen (quicvarint_Read r3) (\<lambda>(PtdaC, r4).
     andThen (if hasOffset then quicvarint_Read r4 else Inr (0, r4)) (\<lambda>(offset, r5).
     andThen (quicvarint_Read r5) (\<lambda>(dataLen, r6).
     Inr (\<lparr>pan_StreamID = int64_of streamID, pan_Offset = int64_of offset,
           pan_PRDataLen = dataLen, pan_Fin = fin, pan_DataLenPresent = hasDataLen,
           pan_PTDA = PTDA, pan_P = P, pan_T = T, pan_D = D, pan_A = A,
           pan_PtdaC = PtdaC\<rparr>, r6)))))))"

definition PRAckNotifyFrame_Append :: "PRAckNotifyFrame \<Rightarrow> byte list \<Rightarrow> error + byte list" where
  "PRAckNotifyFrame_Append f b =
     (let typeByte = (0x58 :: byte);
          typeByte = (if pan_Fin f then typeByte XOR 0b1 else typeByte);
          hasOffset = (pan_Offset f \<noteq> 0);
          typeByte = (if pan_DataLenPresent f then typeByte XOR 0b10 else typeByte);
          typeByte = (if hasOffset then typeByte XOR 0b100 else typeByte);
          b = b @ [typeByte] in
      andThen (quicvarint_Append b (uint64_of (pan_StreamID f))) (\<lambda>b.
      let b = b @ [pan_PTDA f] in
      andThen (quicvarint_Append b (pan_PtdaC f)) (\<lambda>b.
      andThen (if hasOffset then quicvarint_Append b (uint64_of (pan_Offset f))
               else Inr b) (\<lambda>b.
      andThen (quicvarint_Append b (pan_PRDataLen f)) (\<lambda>b.
      Inr b)))))"

definition PRAckNotifyFrame_DataLen :: "PRAckNotifyFrame \<Rightarrow> int" where
  "PRAckNotifyFrame_DataLen f = int64_of (pan_PRDataLen f)"

definition PRAckNotifyFrame_Length :: "PRAckNotifyFrame \<Rightarrow> error + int" where
  "PRAckNotifyFrame_Length f =
     andThen (quicvarint_Len (uint64_of (pan_StreamID f))) (\<lambda>l.
     let length = 1 + l in
     andThen (if pan_Offset f \<noteq> 0
              then andThen (quicvarint_Len (uint64_of (pan_Offset f))) (\<lambda>l. Inr (length + l))
              else Inr length) (\<lambda>length.
     andThen (quicvarint_Len (uint64_of (PRAckNotifyFrame_DataLen f))) (\<lambda>l.
     let length = length + l;
         length = length + 1 in
     andThen (quicvarint_Len (pan_PtdaC f)) (\<lambda>l.
     Inr (length + l)))))"

definition PRAckNotifyFrame_MaxDataLen :: "PRAckNotifyFrame \<Rightarrow> int \<Rightarrow> error + int" where
  "PRAckNotifyFrame_MaxDataLen f maxSize =
     andThen (quicvarint_Len (uint64_of (pan_StreamID f))) (\<lambda>l.
     let headerLen = 1 + l in
     andThen (if pan_Offset f \<noteq> 0
              then andThen (quicvarint_Len (uint64_of (pan_Offset f)))
                     (\<lambda>l. Inr (headerLen + l))
              else Inr headerLen) (\<lambda>headerLen.
     let headerLen = (if pan_DataLenPresent f then headerLen + 1 else headerLen) in
     if headerLen > maxSize then Inr 0
     else
       let headerLen = headerLen - 1 in
       andThen (quicvarint_Len (pan_PtdaC f)) (\<lambda>l.
       let headerLen = headerLen - l;
           maxDataLen = maxSize - headerLen in
       if pan_DataLenPresent f
       then andThen (quicvarint_Len (uint64_of maxDataLen)) (\<lambda>l.
              Inr (if l \<noteq> 1 then maxDataLen - 1 else maxDataLen))
       else Inr maxDataLen)))"

text \<open>\<open>Append\<close> of the second version of the file: type byte from \<open>0x8\<close>, the
  offset and the length before the PR fields, the parameter as one byte.\<close>

definition PRAckNotifyFrame_Append_second ::
    "PRAckNotifyFrame \<Rightarrow> byte list \<Rightarrow> error + byte list" where
  "PRAckNotifyFrame_Append_second f b =
     (let typeByte = (0x8 :: byte);
          typeByte = (if pan_Fin f then typeByte XOR 0b1 else typeByte);
          hasOffset = (pan_Offset f \<noteq> 0);
          typeByte = (if pan_DataLenPresent f then typeByte XOR 0b10 else typeByte);
          typeByte = (if hasOffset then typeByte XOR 0b100 else typeByte);
          b = b @ [typeByte] in
      andThen (quicvarint_Append b (uint64_of (pan_StreamID f))) (\<lambda>b.
      andThen (if hasOffset then quicvarint_Append b (uint64_of (pan_Offset f))
               else Inr b) (\<lambda>b.
      andThen (if pan_DataLenPresent f
               then quicvarint_Append b (uint64_of (PRAckNotifyFrame_DataLen f))
               else Inr b) (\<lambda>b.
      let b = b @ [pan_PTDA f];
          b = b @ [ucast (pan_PtdaC f)] in
      Inr b))))"

section \<open>The PR\_DATAGRAM frame\<close>

text \<open>
  The struct \<open>PRDatagramFrame\<close> (fields prefixed \<open>prd_\<close>) and its \<open>Append\<close>, which
  starts from the type byte \<open>0x52\<close> and sets the low bit when the length is present.
\<close>

record PRDatagramFrame =
  prd_DataLenPresent :: bool
  prd_Data :: "byte list"
  prd_PTDA :: byte
  prd_P :: bool
  prd_T :: bool
  prd_D :: bool
  prd_A :: bool
  prd_ptdaC :: uint64

definition PRDatagramFrame_Append :: "PRDatagramFrame \<Rightarrow> byte list \<Rightarrow> error + byte list" where
  "PRDatagramFrame_Append f b =
     (let typeByte = (0x52 :: byte);
          typeByte = (if prd_DataLenPresent f then typeByte XOR 0b1 else typeByte);
          b = b @ [typeByte] in
      andThen (if prd_DataLenPresent f
               then quicvarint_Append b (uint64_of (int (length (prd_Data f))))
               else Inr b) (\<lambda>b.
      let b = b @ [prd_PTDA f];
          b = b @ [ucast (prd_ptdaC f)];
          b = b @ prd_Data f in
      Inr b))"

section \<open>The STREAM frame\<close>

text \<open>
  Modelled from the spec: the file of \<open>wire.StreamFrame\<close> is not among the sources; the
  stream code uses its fields and its methods \<open>DataLen\<close>, \<open>Length\<close>, \<open>MaxDataLen\<close> and
  \<open>MaybeSplitOffFrame\<close>. The spec (4.1, 6) gives the frame the header \<open>stream_id\<close>,
  optional \<open>offset\<close>, optional \<open>length\<close>; \<open>max_data_len\<close> "returns 0 if the header
  alone exceeds the budget, else the maximum payload fitting within budget, accounting
  for varint length-of-length self-reference (the length varint may round up by one)";
  \<open>maybe_split\<close> returns \<open>(none, false)\<close> if the frame fits, \<open>(none, true)\<close> with the
  frame unchanged if the budget is too small, and otherwise a head frame sized to fit,
  with FIN cleared, the frame itself keeping the remaining bytes at
  \<open>offset + head_len\<close>. The definitions have the shape of their PR\_STREAM
  counterparts above, without the PR fields. Fields are prefixed \<open>sf_\<close>.
\<close>

record StreamFrame =
  sf_StreamID :: int
  sf_Offset :: int
  sf_Data :: "byte list"
  sf_Fin :: bool
  sf_DataLenPresent :: bool
  sf_fromPool :: bool

definition GetStreamFrame :: StreamFrame where
  "GetStreamFrame =
     \<lparr>sf_StreamID = 0, sf_Offset = 0, sf_Data = [], sf_Fin = False,
      sf_DataLenPresent = False, sf_fromPool = True\<rparr>"

definition StreamFrame_DataLen :: "StreamFrame \<Rightarrow> int" where
  "StreamFrame_DataLen f = int (length (sf_Data f))"

definition StreamFrame_Length :: "StreamFrame \<Rightarrow> error + int" where
  "StreamFrame_Length f =
     andThen (quicvarint_Len (uint64_of (sf_StreamID f))) (\<lambda>l.
     let length = 1 + l in
     andThen (if sf_Offset f \<noteq> 0
              then andThen (quicvarint_Len (uint64_of (sf_Offset f))) (\<lambda>l. Inr (length + l))
              else Inr length) (\<lambda>length.
     andThen (if sf_DataLenPresent f
              then andThen (quicvarint_Len (uint64_of (StreamFrame_DataLen f)))
                     (\<lambda>l. Inr (length + l))
              else Inr length) (\<lambda>length.
     Inr (length + StreamFrame_DataLen f))))"

definition StreamFrame_MaxDataLen :: "StreamFrame \<Rightarrow> int \<Rightarrow> error + int" where
  "StreamFrame_MaxDataLen f maxSize =
     andThen (quicvarint_Len (uint64_of (sf_StreamID f))) (\<lambda>l.
     let headerLen = 1 + l in
     andThen (if sf_Offset f \<noteq> 0
              then andThen (quicvarint_Len (uint64_of (sf_Offset f)))
                     (\<lambda>l. Inr (headerLen + l))
              else Inr headerLen) (\<lambda>headerLen.
     let headerLen = (if sf_DataLenPresent f then headerLen + 1 else headerLen) in
     if headerLen > maxSize then Inr 0
     else
       let maxDataLen = maxSize - headerLen in
       if sf_DataLenPresent f
       then andThen (quicvarint_Len (uint64_of maxDataLen)) (\<lambda>l.
              Inr (if l \<noteq> 1 then maxDataLen - 1 else maxDataLen))
       else Inr maxDataLen))"

definition StreamFrame_MaybeSplitOffFrame ::
    "StreamFrame \<Rightarrow> int \<Rightarrow> error + StreamFrame option \<times> bool \<times> StreamFrame" where
  "StreamFrame_MaybeSplitOffFrame f maxSize =
     andThen (StreamFrame_Length f) (\<lambda>len.
     if maxSize \<ge> len then Inr (None, False, f)
     else
       andThen (StreamFrame_MaxDataLen f maxSize) (\<lambda>n.
       if n = 0 then Inr (None, True, f)
       else
         let new = GetStreamFrame;
             new = new\<lparr>sf_StreamID := sf_StreamID f, sf_Offset := sf_Offset f,
                       sf_Fin := False, sf_DataLenPresent := sf_DataLenPresent f\<rparr>;
             newData = sf_Data f; newPool = sf_fromPool f;
             f = f\<lparr>sf_Data := sf_Data new, sf_fromPool := sf_fromPool new\<rparr>;
             new = new\<lparr>sf_Data := newData, sf_fromPool := newPool\<rparr>;
             k = int (length (sf_Data new)) - n in
         if k < 0 \<or> k > MaxPacketBufferSize \<or> n < 0 then Inl PanicSliceBounds
         else
           let f = f\<lparr>sf_Data := drop (nat n) (sf_Data new)\<rparr>;
               new = new\<lparr>sf_Data := take (nat n) (sf_Data new)\<rparr>;
               f = f\<lparr>sf_Offset := sf_Offset f + n\<rparr> in
           Inr (Some new, True, f)))"

section \<open>The process-wide PR configuration (pr\_policy.go)\<close>

text \<open>The package variables \<open>PR_ENABLED\<close>, \<open>PTDA\<close> and \<open>PtadC\<close>, read by
  \<open>popStreamFrame\<close>, as a record passed to it; \<open>defaultPRConfig\<close> holds their
  initial values.\<close>

record PRConfig =
  PR_ENABLED :: bool
  PTDA :: byte
  PtadC :: uint64

definition defaultPRConfig :: PRConfig where
  "defaultPRConfig = \<lparr>PR_ENABLED = True, PTDA = 0x80, PtadC = 0\<rparr>"

section \<open>The stream's collaborators\<close>

text \<open>
  Modelled from the spec: the flow controller is an interface whose implementation is not
  among the sources. Spec 4.2: \<open>send_window_size\<close> is the number of bytes the peer has
  authorised and that are not sent yet; \<open>is_newly_blocked\<close> is true iff the window is
  zero at an offset for which no blocked frame has been emitted yet, and returns that
  offset; \<open>add_bytes_sent\<close> accounts for sent bytes; \<open>update_send_window\<close> advances the
  limit monotonically.
\<close>

record flowController =
  fc_sendWindow :: int
  fc_bytesSent :: int
  fc_lastBlockedAt :: int

definition SendWindowSize :: "flowController \<Rightarrow> int" where
  "SendWindowSize c =
     (if fc_bytesSent c > fc_sendWindow c then 0 else fc_sendWindow c - fc_bytesSent c)"

definition IsNewlyBlocked :: "flowController \<Rightarrow> (bool \<times> int) \<times> flowController" where
  "IsNewlyBlocked c =
     (if SendWindowSize c \<noteq> 0 \<or> fc_sendWindow c = fc_lastBlockedAt c then ((False, 0), c)
      else ((True, fc_sendWindow c), c\<lparr>fc_lastBlockedAt := fc_sendWindow c\<rparr>))"

definition AddBytesSent :: "int \<Rightarrow> flowController \<Rightarrow> flowController" where
  "AddBytesSent n c = c\<lparr>fc_bytesSent := fc_bytesSent c + n\<rparr>"

definition UpdateSendWindow :: "int \<Rightarrow> flowController \<Rightarrow> flowController" where
  "UpdateSendWindow limit c =
     (if limit > fc_sendWindow c then c\<lparr>fc_sendWindow := limit\<rparr> else c)"

text \<open>The calls a stream makes on its \<open>streamSender\<close>. The model's \<open>sender\<close> field
  records them in order, as a mock of the interface would.\<close>

datatype controlFrame =
    ResetStreamFrame int int nat
  | StreamDataBlockedFrame int int

datatype senderCall =
    OnHasStreamData int
  | OnStreamCompleted int
  | QueueControlFrame controlFrame

text \<open>What \<open>popStreamFrame\<close> hands to the packer: the frame, with the callbacks the
  code attaches to it (\<open>queueRetransmission\<close> and \<open>frameAcked\<close> to a plain frame,
  \<open>prQueueRetransmission\<close> and \<open>prStreamframeAcked\<close> to a PR frame).\<close>

datatype ackhandlerFrame =
    PlainFrame StreamFrame
  | PRFrame PRStreamFrame

section \<open>The send stream\<close>

text \<open>
  The struct \<open>sendStream\<close>. The mutex and the single-writer token are not modelled: each
  function below is one critical section (or a sequence of them) run without
  interference. \<open>ctx\<close> is the flag \<open>ctxCanceled\<close>; \<open>writeChan\<close>, a channel of
  capacity one, is the flag "a wake-up is pending"; \<open>deadline\<close> is \<open>None\<close> for the zero
  time; a nil slice or pointer is \<open>None\<close>. Times are natural numbers.
\<close>

record sendStream =
  numOutstandingFrames :: int
  retransmissionQueue :: "StreamFrame list"
  prAckNotifyRetransmissionQueue :: "PRAckNotifyFrame list"
  ctxCanceled :: bool
  streamID :: int
  sender :: "senderCall list"
  writeOffset :: int
  cancelWriteErr :: "error option"
  closeForShutdownErr :: "error option"
  closedForShutdown :: bool
  finishedWriting :: bool
  canceledWrite :: bool
  finSent :: bool
  completed :: bool
  dataForWriting :: "byte list option"
  nextFrame :: "StreamFrame option"
  writeChan :: bool
  deadline :: "nat option"
  flowController :: flowController

definition newSendStream :: "int \<Rightarrow> flowController \<Rightarrow> sendStream" where
  "newSendStream sid fc =
     \<lparr>numOutstandingFrames = 0, retransmissionQueue = [],
      prAckNotifyRetransmissionQueue = [], ctxCanceled = False, streamID = sid,
      sender = [], writeOffset = 0, cancelWriteErr = None, closeForShutdownErr = None,
      closedForShutdown = False, finishedWriting = False, canceledWrite = False,
      finSent = False, completed = False, dataForWriting = None, nextFrame = None,
      writeChan = False, deadline = None, flowController = fc\<rparr>"

definition call_sender :: "senderCall \<Rightarrow> sendStream \<Rightarrow> sendStream" where
  "call_sender c s = s\<lparr>sender := sender s @ [c]\<rparr>"

definition signalWrite :: "sendStream \<Rightarrow> sendStream" where
  "signalWrite s = s\<lparr>writeChan := True\<rparr>"

definition len_slice :: "byte list option \<Rightarrow> int" where
  "len_slice d = (case d of None \<Rightarrow> 0 | Some bs \<Rightarrow> int (length bs))"

definition canBufferStreamFrame :: "sendStream \<Rightarrow> bool" where
  "canBufferStreamFrame s =
     (let l = (case nextFrame s of None \<Rightarrow> 0 | Some nf \<Rightarrow> StreamFrame_DataLen nf)
      in l + len_slice (dataForWriting s) \<le> MaxPacketBufferSize)"

subsection \<open>Write\<close>

text \<open>
  \<open>Write\<close> blocks on \<open>writeChan\<close> inside its loop, so it is modelled in the pieces
  that run without waiting. \<open>Write_entry\<close> is the code from taking the mutex to the store
  of \<open>dataForWriting\<close>: \<open>Some\<close> of the returned pair when \<open>Write\<close> returns there, and
  \<open>None\<close> when it goes on to the loop. \<open>Write_iteration\<close> is one pass through the loop
  body, from its top to the point where it returns, leaves the loop (then the code after
  the loop computes the result) or waits: the caller passes the slice \<open>p\<close> and the local
  \<open>notifiedSender\<close>. \<open>now\<close> is what \<open>time.Now()\<close> returns.
\<close>

text \<open>\<open>!deadline.IsZero() && !time.Now().Before(deadline)\<close>\<close>

definition deadlinePassed :: "nat \<Rightarrow> nat option \<Rightarrow> bool" where
  "deadlinePassed now d = (case d of None \<Rightarrow> False | Some t \<Rightarrow> \<not> now < t)"

definition Write_entry ::
    "nat \<Rightarrow> byte list \<Rightarrow> sendStream \<Rightarrow> (int \<times> error option) option \<times> sendStream" where
  "Write_entry now p s =
     (if finishedWriting s then (Some (0, Some (ErrWriteOnClosedStream (streamID s))), s)
      else if canceledWrite s then (Some (0, cancelWriteErr s), s)
      else if closeForShutdownErr s \<noteq> None then (Some (0, closeForShutdownErr s), s)
      else if deadlinePassed now (deadline s) then (Some (0, Some ErrDeadline), s)
      else if length p = 0 then (Some (0, None), s)
      else (None, s\<lparr>dataForWriting := Some p\<rparr>))"

datatype writeProgress =
    Returned int "error option"
  | Waiting

definition Write_after_loop :: "int \<Rightarrow> byte list \<Rightarrow> sendStream \<Rightarrow> writeProgress" where
  "Write_after_loop bytesWritten p s =
     (if bytesWritten = int (length p) then Returned bytesWritten None
      else if closeForShutdownErr s \<noteq> None then Returned bytesWritten (closeForShutdownErr s)
      else if cancelWriteErr s \<noteq> None then Returned bytesWritten (cancelWriteErr s)
      else Returned bytesWritten None)"

definition Write_iteration ::
    "nat \<Rightarrow> byte list \<Rightarrow> bool \<Rightarrow> sendStream \<Rightarrow> writeProgress \<times> sendStream" where
  "Write_iteration now p notifiedSender s =
     (if canBufferStreamFrame s \<and> len_slice (dataForWriting s) > 0 then
        let d = (case dataForWriting s of None \<Rightarrow> [] | Some bs \<Rightarrow> bs);
            s = (case nextFrame s of
                   None \<Rightarrow>
                     s\<lparr>nextFrame := Some (GetStreamFrame\<lparr>sf_Offset := writeOffset s,
                          sf_StreamID := streamID s, sf_DataLenPresent := True,
                          sf_Data := d\<rparr>)\<rparr>
                 | Some nf \<Rightarrow> s\<lparr>nextFrame := Some (nf\<lparr>sf_Data := sf_Data nf @ d\<rparr>)\<rparr>);
            s = s\<lparr>dataForWriting := None\<rparr>;
            bytesWritten = int (length p);
            s = (if \<not> notifiedSender then call_sender (OnHasStreamData (streamID s)) s else s)
        in (Write_after_loop bytesWritten p s, s)
      else
        let bytesWritten = int (length p) - len_slice (dataForWriting s) in
        if deadlinePassed now (deadline s)
        then (Returned bytesWritten (Some ErrDeadline), s\<lparr>dataForWriting := None\<rparr>)
        else if dataForWriting s = None \<or> canceledWrite s \<or> closedForShutdown s
        then (Write_after_loop bytesWritten p s, s)
        else (Waiting,
              if \<not> notifiedSender then call_sender (OnHasStreamData (streamID s)) s else s))"

text \<open>\<open>Write\<close> from its entry to its first return or wait.\<close>

definition Write_start :: "nat \<Rightarrow> byte list \<Rightarrow> sendStream \<Rightarrow> writeProgress \<times> sendStream" where
  "Write_start now p s =
     (case Write_entry now p s of
        (Some (n, err), s') \<Rightarrow> (Returned n err, s')
      | (None, s') \<Rightarrow> Write_iteration now p False s')"

subsection \<open>Frame assembly\<close>

text \<open>A function that changes the stream returns its result paired with the new stream;
  one that can panic returns \<open>error + _\<close>.\<close>

definition maybeGetRetransmission ::
    "int \<Rightarrow> sendStream \<Rightarrow> error + (StreamFrame option \<times> bool) \<times> sendStream" where
  "maybeGetRetransmission maxBytes s =
     (case retransmissionQueue s of
        [] \<Rightarrow> Inl PanicSliceBounds
      | f # rest \<Rightarrow>
          andThen (StreamFrame_MaybeSplitOffFrame f maxBytes) (\<lambda>(newFrame, needsSplit, f').
          if needsSplit then Inr ((newFrame, True), s\<lparr>retransmissionQueue := f' # rest\<rparr>)
          else
            let s = s\<lparr>retransmissionQueue := rest\<rparr> in
            Inr ((Some f', length (retransmissionQueue s) > 0), s)))"

definition getDataForWriting ::
    "StreamFrame \<Rightarrow> int \<Rightarrow> sendStream \<Rightarrow> error + StreamFrame \<times> sendStream" where
  "getDataForWriting f maxBytes s =
     (let d = (case dataForWriting s of None \<Rightarrow> [] | Some bs \<Rightarrow> bs) in
      if len_slice (dataForWriting s) \<le> maxBytes then
        if len_slice (dataForWriting s) > MaxPacketBufferSize then Inl PanicSliceBounds
        else Inr (f\<lparr>sf_Data := d\<rparr>, signalWrite (s\<lparr>dataForWriting := None\<rparr>))
      else if maxBytes < 0 \<or> maxBytes > MaxPacketBufferSize then Inl PanicSliceBounds
      else
        let f = f\<lparr>sf_Data := take (nat maxBytes) d\<rparr>;
            s = s\<lparr>dataForWriting := Some (drop (nat maxBytes) d)\<rparr> in
        Inr (f, if canBufferStreamFrame s then signalWrite s else s))"

definition popNewStreamFrameWithoutBuffer ::
    "StreamFrame \<Rightarrow> int \<Rightarrow> int \<Rightarrow> sendStream \<Rightarrow> error + (StreamFrame \<times> bool) \<times> sendStream" where
  "popNewStreamFrameWithoutBuffer f maxBytes sendWindow s =
     andThen (StreamFrame_MaxDataLen f maxBytes) (\<lambda>maxDataLen.
     if maxDataLen = 0
     then Inr ((f, dataForWriting s \<noteq> None \<or> nextFrame s \<noteq> None \<or> finishedWriting s), s)
     else
       andThen (getDataForWriting f (min maxDataLen sendWindow) s) (\<lambda>(f, s).
       Inr ((f, dataForWriting s \<noteq> None \<or> nextFrame s \<noteq> None \<or> finishedWriting s), s)))"

definition popNewStreamFrame ::
    "int \<Rightarrow> int \<Rightarrow> sendStream \<Rightarrow> error + (StreamFrame option \<times> bool) \<times> sendStream" where
  "popNewStreamFrame maxBytes sendWindow s =
     (case nextFrame s of
        Some nextFrame' \<Rightarrow>
          let s = s\<lparr>nextFrame := None\<rparr> in
          andThen (StreamFrame_MaxDataLen nextFrame' maxBytes) (\<lambda>m.
          let maxDataLen = min sendWindow m in
          if StreamFrame_DataLen nextFrame' > maxDataLen then
            let k = StreamFrame_DataLen nextFrame' - maxDataLen in
            if k > MaxPacketBufferSize \<or> maxDataLen < 0 then Inl PanicSliceBounds
            else
              let nf = GetStreamFrame\<lparr>sf_StreamID := streamID s,
                         sf_Offset := writeOffset s + maxDataLen,
                         sf_Data := drop (nat maxDataLen) (sf_Data nextFrame'),
                         sf_DataLenPresent := True\<rparr>;
                  s = s\<lparr>nextFrame := Some nf\<rparr>;
                  nextFrame' = nextFrame'\<lparr>sf_Data := take (nat maxDataLen) (sf_Data nextFrame')\<rparr>
              in Inr ((Some nextFrame', nextFrame s \<noteq> None \<or> dataForWriting s \<noteq> None), s)
          else
            let s = signalWrite s in
            Inr ((Some nextFrame', nextFrame s \<noteq> None \<or> dataForWriting s \<noteq> None), s))
      | None \<Rightarrow>
          let f = GetStreamFrame\<lparr>sf_Fin := False, sf_StreamID := streamID s,
                    sf_Offset := writeOffset s, sf_DataLenPresent := True, sf_Data := []\<rparr> in
          andThen (popNewStreamFrameWithoutBuffer f maxBytes sendWindow s) (\<lambda>((f, hasMoreData), s).
          if length (sf_Data f) = 0 \<and> \<not> sf_Fin f then Inr ((None, hasMoreData), s)
          else Inr ((Some f, hasMoreData), s)))"

text \<open>
  \<open>popNewOrRetransmittedStreamFrame\<close> is modelled in the three blocks of its body: the
  guard at its top; the block \<open>if len(s.retransmissionQueue) > 0 { ... }\<close>, here
  \<open>popRetransmittedStreamFrame\<close>, whose result is \<open>Some\<close> of the pair the function
  returns from inside the block and \<open>None\<close> when control leaves the block by its end;
  and the rest of the body, here \<open>popNewData\<close>. A nil frame returned by
  \<open>popNewStreamFrame\<close> is dereferenced by the call \<open>f.DataLen()\<close>.
\<close>

definition popRetransmittedStreamFrame ::
    "int \<Rightarrow> sendStream \<Rightarrow> error + (StreamFrame option \<times> bool) option \<times> sendStream" where
  "popRetransmittedStreamFrame maxBytes s =
     (if length (retransmissionQueue s) > 0
      then andThen (maybeGetRetransmission maxBytes s)
             (\<lambda>((f, hasMoreRetransmissions), s).
                if f \<noteq> None \<or> hasMoreRetransmissions
                then if f = None then Inr (Some (None, True), s)
                     else Inr (Some (f, True), s)
                else Inr (None, s))
      else Inr (None, s))"

definition popNewData ::
    "int \<Rightarrow> sendStream \<Rightarrow> error + (StreamFrame option \<times> bool) \<times> sendStream" where
  "popNewData maxBytes s =
     (if len_slice (dataForWriting s) = 0 \<and> nextFrame s = None then
        if finishedWriting s \<and> \<not> finSent s then
          Inr ((Some \<lparr>sf_StreamID = streamID s, sf_Offset = writeOffset s,
                       sf_Data = [], sf_Fin = True, sf_DataLenPresent = True,
                       sf_fromPool = False\<rparr>, False),
               s\<lparr>finSent := True\<rparr>)
        else Inr ((None, False), s)
      else
        let sendWindow = SendWindowSize (flowController s) in
        if sendWindow = 0 then
          (case IsNewlyBlocked (flowController s) of
             ((isBlocked, offset), fc) \<Rightarrow>
               let s = s\<lparr>flowController := fc\<rparr> in
               if isBlocked
               then Inr ((None, False),
                      call_sender (QueueControlFrame
                        (StreamDataBlockedFrame (streamID s) offset)) s)
               else Inr ((None, True), s))
        else
          andThen (popNewStreamFrame maxBytes sendWindow s) (\<lambda>((f, hasMoreData), s).
          andThen (deref f) (\<lambda>f.
          let dataLen = StreamFrame_DataLen f;
              s = (if dataLen > 0
                   then s\<lparr>writeOffset := writeOffset s + StreamFrame_DataLen f,
                          flowController :=
                            AddBytesSent (StreamFrame_DataLen f) (flowController s)\<rparr>
                   else s);
              f = f\<lparr>sf_Fin := (finishedWriting s \<and> dataForWriting s = None \<and>
                               nextFrame s = None \<and> \<not> finSent s)\<rparr>;
              s = (if sf_Fin f then s\<lparr>finSent := True\<rparr> else s)
          in Inr ((Some f, hasMoreData), s))))"

definition popNewOrRetransmittedStreamFrame ::
    "int \<Rightarrow> sendStream \<Rightarrow> error + (StreamFrame option \<times> bool) \<times> sendStream" where
  "popNewOrRetransmittedStreamFrame maxBytes s =
     (if canceledWrite s \<or> closeForShutdownErr s \<noteq> None then Inr ((None, False), s)
      else
        andThen (popRetransmittedStreamFrame maxBytes s) (\<lambda>(returned, s).
        case returned of
          Some r \<Rightarrow> Inr (r, s)
        | None \<Rightarrow> popNewData maxBytes s))"

text \<open>The end of \<open>popStreamFrame\<close>: with PR enabled the STREAM frame is converted to
  a PR\_STREAM frame stamped with the configured policy, and the frame is handed out with
  its callbacks.\<close>

definition wrapStreamFrame :: "PRConfig \<Rightarrow> StreamFrame \<Rightarrow> ackhandlerFrame" where
  "wrapStreamFrame cfg f =
     (if PR_ENABLED cfg then
        let prf = \<lparr>prs_StreamID = sf_StreamID f, prs_Offset = sf_Offset f,
                   prs_Data = sf_Data f, prs_Fin = sf_Fin f,
                   prs_DataLenPresent = sf_DataLenPresent f, prs_PTDA = PTDA cfg,
                   prs_P = False, prs_T = False, prs_D = False, prs_A = False,
                   prs_ptdaC = PtadC cfg, prs_fromPool = False\<rparr>;
            prf = (if PTDA cfg = 0x80 then prf\<lparr>prs_P := True\<rparr>
                   else if PTDA cfg = 0x40 then prf\<lparr>prs_T := True\<rparr>
                   else if PTDA cfg = 0x20 then prf\<lparr>prs_D := True\<rparr>
                   else if PTDA cfg = 0x10 then prf\<lparr>prs_A := True\<rparr>
                   else prf)
        in PRFrame prf
      else PlainFrame f)"

definition popStreamFrame ::
    "PRConfig \<Rightarrow> int \<Rightarrow> sendStream \<Rightarrow> error + (ackhandlerFrame option \<times> bool) \<times> sendStream" where
  "popStreamFrame cfg maxBytes s =
     (let pr_maxBytes = (if PR_ENABLED cfg then maxBytes - (1 + 8) else maxBytes) in
      andThen (popNewOrRetransmittedStreamFrame pr_maxBytes s) (\<lambda>((f, hasMoreData), s).
      case f of
        None \<Rightarrow> Inr ((None, hasMoreData), s)
      | Some f \<Rightarrow>
          let s = s\<lparr>numOutstandingFrames := numOutstandingFrames s + 1\<rparr> in
          Inr ((Some (wrapStreamFrame cfg f), hasMoreData), s)))"

definition hasData :: "sendStream \<Rightarrow> bool" where
  "hasData s = (len_slice (dataForWriting s) > 0)"

subsection \<open>Acknowledgement, loss and completion\<close>

definition isNewlyCompleted :: "sendStream \<Rightarrow> bool \<times> sendStream" where
  "isNewlyCompleted s =
     (let completed' = ((finSent s \<or> canceledWrite s) \<and> numOutstandingFrames s = 0 \<and>
                        length (retransmissionQueue s) = 0) in
      if completed' \<and> \<not> completed s then (True, s\<lparr>completed := True\<rparr>)
      else (False, s))"

text \<open>\<open>frameAcked\<close> and \<open>prStreamframeAcked\<close> differ only in the type of the frame
  they give back to its pool, so the frame is not an argument of the model.\<close>

definition frameAcked :: "sendStream \<Rightarrow> error + sendStream" where
  "frameAcked s =
     (if canceledWrite s then Inr s
      else
        let s = s\<lparr>numOutstandingFrames := numOutstandingFrames s - 1\<rparr> in
        if numOutstandingFrames s < 0 then Inl PanicOutstandingNegative
        else
          (case isNewlyCompleted s of
             (newlyCompleted, s) \<Rightarrow>
               Inr (if newlyCompleted then call_sender (OnStreamCompleted (streamID s)) s
                    else s)))"

definition prStreamframeAcked :: "sendStream \<Rightarrow> error + sendStream" where
  "prStreamframeAcked s =
     (if canceledWrite s then Inr s
      else
        let s = s\<lparr>numOutstandingFrames := numOutstandingFrames s - 1\<rparr> in
        if numOutstandingFrames s < 0 then Inl PanicOutstandingNegative
        else
          (case isNewlyCompleted s of
             (newlyCompleted, s) \<Rightarrow>
               Inr (if newlyCompleted then call_sender (OnStreamCompleted (streamID s)) s
                    else s)))"

definition queueRetransmission :: "StreamFrame \<Rightarrow> sendStream \<Rightarrow> error + sendStream" where
  "queueRetransmission sf s =
     (let sf = sf\<lparr>sf_DataLenPresent := True\<rparr> in
      if canceledWrite s then Inr s
      else
        let s = s\<lparr>retransmissionQueue := retransmissionQueue s @ [sf]\<rparr>;
            s = s\<lparr>numOutstandingFrames := numOutstandingFrames s - 1\<rparr> in
        if numOutstandingFrames s < 0 then Inl PanicOutstandingNegative
        else Inr (call_sender (OnHasStreamData (streamID s)) s))"

definition prAckNotifyQueueRetransmission ::
    "PRAckNotifyFrame \<Rightarrow> sendStream \<Rightarrow> error + sendStream" where
  "prAckNotifyQueueRetransmission prAckNf s =
     (let prAckNf = prAckNf\<lparr>pan_DataLenPresent := True\<rparr> in
      if canceledWrite s then Inr s
      else
        let s = s\<lparr>prAckNotifyRetransmissionQueue :=
                    prAckNotifyRetransmissionQueue s @ [prAckNf]\<rparr>;
            s = s\<lparr>numOutstandingFrames := numOutstandingFrames s - 1\<rparr> in
        if numOutstandingFrames s < 0 then Inl PanicOutstandingNegative
        else Inr (call_sender (OnHasStreamData (streamID s)) s))"

text \<open>
  \<open>prQueueRetransmission\<close>. \<open>retran_threshold\<close> is the value \<open>rand.Intn(10000)\<close>
  returns, an argument of the model (the generator is only consulted in the first case
  of the switch). The switch is on \<open>frame.PtdaC\<close>; \<open>pC\<close> is \<open>int(frame.PtdaC)\<close>.
\<close>

definition prQueueRetransmission ::
    "nat \<Rightarrow> PRStreamFrame \<Rightarrow> sendStream \<Rightarrow> error + sendStream" where
  "prQueueRetransmission retran_threshold frame s =
     (let pr_retran_enabled = False;
          pr_retran_enabled =
            (if prs_ptdaC frame = 0x80 then
               let pC = sint (prs_ptdaC frame) in
               if pC > int retran_threshold then True else pr_retran_enabled
             else if prs_ptdaC frame = 0x40 then pr_retran_enabled
             else if prs_ptdaC frame = 0x20 then pr_retran_enabled
             else if prs_ptdaC frame = 0x10 then pr_retran_enabled
             else pr_retran_enabled) in
      if \<not> pr_retran_enabled then
        let sf = \<lparr>sf_StreamID = prs_StreamID frame, sf_Offset = prs_Offset frame,
                  sf_Data = prs_Data frame, sf_Fin = prs_Fin frame,
                  sf_DataLenPresent = prs_DataLenPresent frame, sf_fromPool = False\<rparr> in
        queueRetransmission sf s
      else
        let prAckNf = \<lparr>pan_StreamID = prs_StreamID frame, pan_Offset = prs_Offset frame,
                       pan_PRDataLen = uint64_of (PRStreamFrame_DataLen frame),
                       pan_Fin = prs_Fin frame,
                       pan_DataLenPresent = prs_DataLenPresent frame,
                       pan_PTDA = prs_PTDA frame, pan_P = prs_P frame, pan_T = prs_T frame,
                       pan_D = prs_D frame, pan_A = prs_A frame,
                       pan_PtdaC = prs_ptdaC frame\<rparr> in
        prAckNotifyQueueRetransmission prAckNf s)"

text \<open>The callbacks as \<open>popStreamFrame\<close> attaches them.\<close>

definition OnAcked :: "ackhandlerFrame \<Rightarrow> sendStream \<Rightarrow> error + sendStream" where
  "OnAcked fr s =
     (case fr of PlainFrame f \<Rightarrow> frameAcked s | PRFrame f \<Rightarrow> prStreamframeAcked s)"

definition OnLost :: "nat \<Rightarrow> ackhandlerFrame \<Rightarrow> sendStream \<Rightarrow> error + sendStream" where
  "OnLost retran_threshold fr s =
     (case fr of
        PlainFrame f \<Rightarrow> queueRetransmission f s
      | PRFrame f \<Rightarrow> prQueueRetransmission retran_threshold f s)"

subsection \<open>Close, cancel, shutdown\<close>

definition Close :: "sendStream \<Rightarrow> error option \<times> sendStream" where
  "Close s =
     (if closedForShutdown s then (None, s)
      else if canceledWrite s then (Some (ErrCloseCanceledStream (streamID s)), s)
      else
        let s = s\<lparr>ctxCanceled := True\<rparr>;
            s = s\<lparr>finishedWriting := True\<rparr> in
        (None, call_sender (OnHasStreamData (streamID s)) s))"

definition cancelWriteImpl :: "nat \<Rightarrow> error \<Rightarrow> sendStream \<Rightarrow> sendStream" where
  "cancelWriteImpl errorCode writeErr s =
     (if canceledWrite s then s
      else
        let s = s\<lparr>ctxCanceled := True\<rparr>;
            s = s\<lparr>canceledWrite := True\<rparr>;
            s = s\<lparr>cancelWriteErr := Some writeErr\<rparr>;
            s = s\<lparr>numOutstandingFrames := 0\<rparr>;
            s = s\<lparr>retransmissionQueue := []\<rparr> in
        (case isNewlyCompleted s of
           (newlyCompleted, s) \<Rightarrow>
             let s = signalWrite s;
                 s = call_sender (QueueControlFrame
                       (ResetStreamFrame (streamID s) (writeOffset s) errorCode)) s in
             if newlyCompleted then call_sender (OnStreamCompleted (streamID s)) s else s))"

definition CancelWrite :: "nat \<Rightarrow> sendStream \<Rightarrow> sendStream" where
  "CancelWrite errorCode s =
     cancelWriteImpl errorCode (ErrWriteCanceled (streamID s) errorCode) s"

definition handleStopSendingFrame :: "nat \<Rightarrow> sendStream \<Rightarrow> sendStream" where
  "handleStopSendingFrame errorCode s =
     cancelWriteImpl errorCode (ErrStreamError (streamID s) errorCode) s"

definition updateSendWindow :: "int \<Rightarrow> sendStream \<Rightarrow> sendStream" where
  "updateSendWindow limit s =
     (let hasStreamData = (dataForWriting s \<noteq> None \<or> nextFrame s \<noteq> None);
          s = s\<lparr>flowController := UpdateSendWindow limit (flowController s)\<rparr> in
      if hasStreamData then call_sender (OnHasStreamData (streamID s)) s else s)"

definition SetWriteDeadline :: "nat option \<Rightarrow> sendStream \<Rightarrow> sendStream" where
  "SetWriteDeadline t s = signalWrite (s\<lparr>deadline := t\<rparr>)"

definition closeForShutdown :: "error option \<Rightarrow> sendStream \<Rightarrow> sendStream" where
  "closeForShutdown err s =
     (let s = s\<lparr>ctxCanceled := True\<rparr>;
          s = s\<lparr>closedForShutdown := True\<rparr>;
          s = s\<lparr>closeForShutdownErr := err\<rparr> in
      signalWrite s)"

subsection \<open>Runs of the stream\<close>

text \<open>
  The operations the writer, the packer and the loss detector perform on a stream, and
  the stream after a sequence of them, each run to its end before the next starts. A run
  stops at the first panic. The frame given to \<open>OpOnAcked\<close> and \<open>OpOnLost\<close> is
  arbitrary, as is the value drawn from the random generator.
\<close>

datatype operation =
    OpWrite nat "byte list"
  | OpWriteWake nat "byte list" bool
  | OpPopStreamFrame int
  | OpOnAcked ackhandlerFrame
  | OpOnLost nat ackhandlerFrame
  | OpClose
  | OpCancelWrite nat
  | OpHandleStopSending nat
  | OpCloseForShutdown "error option"
  | OpUpdateSendWindow int
  | OpSetWriteDeadline "nat option"

fun step :: "PRConfig \<Rightarrow> operation \<Rightarrow> sendStream \<Rightarrow> error + sendStream" where
  "step cfg (OpWrite now p) s = Inr (snd (Write_start now p s))"
| "step cfg (OpWriteWake now p notified) s = Inr (snd (Write_iteration now p notified s))"
| "step cfg (OpPopStreamFrame maxBytes) s =
     andThen (popStreamFrame cfg maxBytes s) (\<lambda>(r, s'). Inr s')"
| "step cfg (OpOnAcked fr) s = OnAcked fr s"
| "step cfg (OpOnLost r fr) s = OnLost r fr s"
| "step cfg OpClose s = Inr (snd (Close s))"
| "step cfg (OpCancelWrite code) s = Inr (CancelWrite code s)"
| "step cfg (OpHandleStopSending code) s = Inr (handleStopSendingFrame code s)"
| "step cfg (OpCloseForShutdown err) s = Inr (closeForShutdown err s)"
| "step cfg (OpUpdateSendWindow limit) s = Inr (updateSendWindow limit s)"
| "step cfg (OpSetWriteDeadline t) s = Inr (SetWriteDeadline t s)"

fun run :: "PRConfig \<Rightarrow> operation list \<Rightarrow> sendStream \<Rightarrow> error + sendStream" where
  "run cfg [] s = Inr s"
| "run cfg (x # xs) s = andThen (step cfg x s) (run cfg xs)"

text \<open>The completion predicate of the spec, and the number of times the stream has
  reported its completion to the sender.\<close>

definition completion_predicate :: "sendStream \<Rightarrow> bool" where
  "completion_predicate s =
     ((finSent s \<or> canceledWrite s) \<and> numOutstandingFrames s = 0 \<and>
      retransmissionQueue s = [])"

fun isCompletedCall :: "senderCall \<Rightarrow> bool" where
  "isCompletedCall (OnStreamCompleted sid) = True"
| "isCompletedCall (OnHasStreamData sid) = False"
| "isCompletedCall (QueueControlFrame f) = False"

definition completions :: "sendStream \<Rightarrow> nat" where
  "completions s = length (filter isCompletedCall (sender s))"

text \<open>
  What a step may do to the completion state, in the words of the claims: a completed
  stream stays completed and reports nothing more; a stream that becomes completed
  satisfies the completion predicate and reports exactly once; a stream that stays
  uncompleted reports nothing. \<open>completion_view\<close> is the part of the stream these
  speak about; \<open>reported_once\<close> says that the stream has reported its completion once if
  it is completed and never otherwise.
\<close>

definition completion_view :: "sendStream \<Rightarrow> bool \<times> nat" where
  "completion_view s = (completed s, completions s)"

definition completion_step :: "sendStream \<Rightarrow> sendStream \<Rightarrow> bool" where
  "completion_step s s' =
     (if completed s then completed s' \<and> completions s' = completions s
      else if completed s' then completion_predicate s' \<and> completions s' = Suc (completions s)
      else completions s' = completions s)"

definition reported_once :: "sendStream \<Rightarrow> bool" where
  "reported_once s = (completions s = (if completed s then 1 else 0))"

section \<open>The wire layout of PR\_ACK\_NOTIFY in the spec's words\<close>

text \<open>
  The layout the spec gives (4.1, 6, 9): a type byte, then the header fields
  \<open>stream_id\<close> (varint), \<open>PTDA\<close> (one byte), \<open>ptda_c\<close> (varint), the optional
  \<open>offset\<close> (varint), and finally \<open>pr_data_len\<close> (varint). \<open>varint i\<close> is the
  encoding of \<open>i\<close> on its own. The type byte is a parameter: the code's type byte is
  \<open>PRAckNotifyFrame_typeByte\<close>, \<open>0x58\<close> plus the flag bits of the STREAM type byte.
\<close>

definition varint :: "uint64 \<Rightarrow> error + byte list" where
  "varint i = quicvarint_Append [] i"

definition spec_PR_ACK_NOTIFY_layout :: "byte \<Rightarrow> PRAckNotifyFrame \<Rightarrow> error + byte list" where
  "spec_PR_ACK_NOTIFY_layout t f =
     andThen (varint (uint64_of (pan_StreamID f))) (\<lambda>stream_id.
     andThen (varint (pan_PtdaC f)) (\<lambda>ptda_c.
     andThen (if pan_Offset f \<noteq> 0 then varint (uint64_of (pan_Offset f)) else Inr [])
       (\<lambda>offset.
     andThen (varint (pan_PRDataLen f)) (\<lambda>pr_data_len.
     Inr ([t] @ stream_id @ [pan_PTDA f] @ ptda_c @ offset @ pr_data_len)))))"

definition PRAckNotifyFrame_typeByte :: "PRAckNotifyFrame \<Rightarrow> byte" where
  "PRAckNotifyFrame_typeByte f =
     0x58 + (if pan_Fin f then 1 else 0) + (if pan_DataLenPresent f then 2 else 0) +
     (if pan_Offset f \<noteq> 0 then 4 else 0)"

text \<open>
  The spec's type byte \<open>0x50\<close> read together with its rule that the low bits of every
  type byte encode OFF, LEN and FIN (4.1).
\<close>

definition spec_PR_ACK_NOTIFY_typeByte :: "PRAckNotifyFrame \<Rightarrow> byte" where
  "spec_PR_ACK_NOTIFY_typeByte f =
     0x50 + (if pan_Fin f then 1 else 0) + (if pan_DataLenPresent f then 2 else 0) +
     (if pan_Offset f \<noteq> 0 then 4 else 0)"

text \<open>
  The frames of the Go type: \<open>StreamID\<close> and \<open>Offset\<close> are \<open>int64\<close> values, and the
  four policy flags are the ones the parser derives from the high nibble of \<open>PTDA\<close>
  (the stream copies both from the PR\_STREAM frame it gives up).
\<close>

definition is_int64 :: "int \<Rightarrow> bool" where
  "is_int64 x \<longleftrightarrow> - (2 ^ 63) \<le> x \<and> x < 2 ^ 63"

definition policy_flags_of_PTDA :: "PRAckNotifyFrame \<Rightarrow> bool" where
  "policy_flags_of_PTDA f \<longleftrightarrow>
     pan_A f = (pan_PTDA f AND 0xf0 = 0x10) \<and> pan_D f = (pan_PTDA f AND 0xf0 = 0x20) \<and>
     pan_T f = (pan_PTDA f AND 0xf0 = 0x40) \<and> pan_P f = (pan_PTDA f AND 0xf0 = 0x80)"

section \<open>Concrete inputs\<close>

text \<open>Frames and streams at which the theorems below evaluate the code.\<close>

definition c2_frame :: PRStreamFrame where
  "c2_frame =
     \<lparr>prs_StreamID = 0, prs_Offset = 0, prs_Data = [1], prs_Fin = False,
      prs_DataLenPresent = True, prs_PTDA = 0x80, prs_P = True, prs_T = False,
      prs_D = False, prs_A = False, prs_ptdaC = 5000, prs_fromPool = False\<rparr>"

definition c4_frame :: PRStreamFrame where
  "c4_frame =
     \<lparr>prs_StreamID = 0, prs_Offset = 0, prs_Data = [], prs_Fin = False,
      prs_DataLenPresent = False, prs_PTDA = 0x80, prs_P = True, prs_T = False,
      prs_D = False, prs_A = False, prs_ptdaC = 0, prs_fromPool = False\<rparr>"

definition c7_frame :: PRStreamFrame where
  "c7_frame =
     \<lparr>prs_StreamID = 0, prs_Offset = 0, prs_Data = [1, 2, 3, 4, 5], prs_Fin = False,
      prs_DataLenPresent = True, prs_PTDA = 0x80, prs_P = True, prs_T = False,
      prs_D = False, prs_A = False, prs_ptdaC = 0, prs_fromPool = False\<rparr>"

definition fc0 :: flowController where
  "fc0 = \<lparr>fc_sendWindow = 1000, fc_bytesSent = 0, fc_lastBlockedAt = 0\<rparr>"

text \<open>For C1: the Probability policy with parameter 5000; the stream after
  \<open>Write\<close> of five bytes and one \<open>popStreamFrame\<close>, and the frame that call returned.\<close>

definition c1_config :: PRConfig where
  "c1_config = \<lparr>PR_ENABLED = True, PTDA = 0x80, PtadC = 5000\<rparr>"

definition c1_frame :: PRStreamFrame where
  "c1_frame =
     \<lparr>prs_StreamID = 0, prs_Offset = 0, prs_Data = [1, 2, 3, 4, 5], prs_Fin = False,
      prs_DataLenPresent = True, prs_PTDA = 0x80, prs_P = True, prs_T = False,
      prs_D = False, prs_A = False, prs_ptdaC = 5000, prs_fromPool = False\<rparr>"

definition c1_stream :: sendStream where
  "c1_stream =
     \<lparr>numOutstandingFrames = 1, retransmissionQueue = [],
      prAckNotifyRetransmissionQueue = [], ctxCanceled = False, streamID = 0,
      sender = [OnHasStreamData 0], writeOffset = 5, cancelWriteErr = None,
      closeForShutdownErr = None, closedForShutdown = False, finishedWriting = False,
      canceledWrite = False, finSent = False, completed = False, dataForWriting = None,
      nextFrame = None, writeChan = True, deadline = None,
      flowController = \<lparr>fc_sendWindow = 1000, fc_bytesSent = 5, fc_lastBlockedAt = 0\<rparr>\<rparr>"

text \<open>For C5: a stream closed by the producer and then shut down; one cancelled and
  then shut down; one shut down with a deadline set; one with only a deadline set.\<close>

definition c5_closed_shutdown :: sendStream where
  "c5_closed_shutdown =
     closeForShutdown (Some (ErrShutdown 1)) (snd (Close (newSendStream 0 fc0)))"

definition c5_canceled_shutdown :: sendStream where
  "c5_canceled_shutdown =
     closeForShutdown (Some (ErrShutdown 1)) (CancelWrite 7 (newSendStream 0 fc0))"

definition c5_shutdown_deadline :: sendStream where
  "c5_shutdown_deadline =
     SetWriteDeadline (Some 5) (closeForShutdown (Some (ErrShutdown 1)) (newSendStream 0 fc0))"

definition c5_deadline :: sendStream where
  "c5_deadline = SetWriteDeadline (Some 5) (newSendStream 0 fc0)"

text \<open>For C9: the notification the skip path builds for a lost frame of five bytes at
  offset 0 (the length flag is forced on when it is queued).\<close>

definition c9_frame :: PRAckNotifyFrame where
  "c9_frame =
     \<lparr>pan_StreamID = 0, pan_Offset = 0, pan_PRDataLen = 5, pan_Fin = False,
      pan_DataLenPresent = True, pan_PTDA = 0x80, pan_P = True, pan_T = False,
      pan_D = False, pan_A = False, pan_PtdaC = 0\<rparr>"

text \<open>For C9: a PR\_DATAGRAM frame without data and without the length field.\<close>

definition c9_datagram :: PRDatagramFrame where
  "c9_datagram =
     \<lparr>prd_DataLenPresent = False, prd_Data = [], prd_PTDA = 0x80, prd_P = True,
      prd_T = False, prd_D = False, prd_A = False, prd_ptdaC = 0\<rparr>"

text \<open>For C6: \<open>Write\<close> of three bytes, \<open>Close\<close> and \<open>popStreamFrame\<close> under the
  default configuration lead to \<open>c6_before\<close> and hand out \<open>c6_frame\<close>; its
  acknowledgement leads to \<open>c6_after\<close>.\<close>

definition c6_frame :: PRStreamFrame where
  "c6_frame =
     \<lparr>prs_StreamID = 0, prs_Offset = 0, prs_Data = [1, 2, 3], prs_Fin = True,
      prs_DataLenPresent = True, prs_PTDA = 0x80, prs_P = True, prs_T = False,
      prs_D = False, prs_A = False, prs_ptdaC = 0, prs_fromPool = False\<rparr>"

definition c6_before :: sendStream where
  "c6_before =
     \<lparr>numOutstandingFrames = 1, retransmissionQueue = [],
      prAckNotifyRetransmissionQueue = [], ctxCanceled = True, streamID = 0,
      sender = [OnHasStreamData 0, OnHasStreamData 0], writeOffset = 3,
      cancelWriteErr = None, closeForShutdownErr = None, closedForShutdown = False,
      finishedWriting = True, canceledWrite = False, finSent = True, completed = False,
      dataForWriting = None, nextFrame = None, writeChan = True, deadline = None,
      flowController = \<lparr>fc_sendWindow = 1000, fc_bytesSent = 3, fc_lastBlockedAt = 0\<rparr>\<rparr>"

definition c6_after :: sendStream where
  "c6_after =
     c6_before\<lparr>numOutstandingFrames := 0, completed := True,
       sender := [OnHasStreamData 0, OnHasStreamData 0, OnStreamCompleted 0]\<rparr>"

text \<open>For C10: the Probability policy with parameter 128 (the one value at which the
  evaluator skips). \<open>c10_sent\<close> is the stream after two writes of one byte, \<open>Close\<close>
  and two calls of \<open>popStreamFrame\<close>, which hand out \<open>c10_frameA\<close> and
  \<open>c10_frameB\<close>; the other streams are what the runs in the theorem lead to.\<close>


definition c10_config :: PRConfig where
  "c10_config = \<lparr>PR_ENABLED = True, PTDA = 0x80, PtadC = 128\<rparr>"

definition c10_frameA :: PRStreamFrame where
  "c10_frameA =
     \<lparr>prs_StreamID = 0, prs_Offset = 0, prs_Data = [1], prs_Fin = False,
      prs_DataLenPresent = True, prs_PTDA = 0x80, prs_P = True, prs_T = False,
      prs_D = False, prs_A = False, prs_ptdaC = 128, prs_fromPool = False\<rparr>"

definition c10_frameB :: PRStreamFrame where
  "c10_frameB =
     \<lparr>prs_StreamID = 0, prs_Offset = 1, prs_Data = [2], prs_Fin = True,
      prs_DataLenPresent = True, prs_PTDA = 0x80, prs_P = True, prs_T = False,
      prs_D = False, prs_A = False, prs_ptdaC = 128, prs_fromPool = False\<rparr>"

definition c10_notifyA :: PRAckNotifyFrame where
  "c10_notifyA =
     \<lparr>pan_StreamID = 0, pan_Offset = 0, pan_PRDataLen = 1, pan_Fin = False,
      pan_DataLenPresent = True, pan_PTDA = 0x80, pan_P = True, pan_T = False,
      pan_D = False, pan_A = False, pan_PtdaC = 128\<rparr>"

definition c10_notifyB :: PRAckNotifyFrame where
  "c10_notifyB =
     \<lparr>pan_StreamID = 0, pan_Offset = 1, pan_PRDataLen = 1, pan_Fin = True,
      pan_DataLenPresent = True, pan_PTDA = 0x80, pan_P = True, pan_T = False,
      pan_D = False, pan_A = False, pan_PtdaC = 128\<rparr>"

definition c10_sent :: sendStream where
  "c10_sent =
     \<lparr>numOutstandingFrames = 2, retransmissionQueue = [],
      prAckNotifyRetransmissionQueue = [], ctxCanceled = True, streamID = 0,
      sender = [OnHasStreamData 0, OnHasStreamData 0, OnHasStreamData 0], writeOffset = 2,
      cancelWriteErr = None, closeForShutdownErr = None, closedForShutdown = False,
      finishedWriting = True, canceledWrite = False, finSent = True, completed = False,
      dataForWriting = None, nextFrame = None, writeChan = True, deadline = None,
      flowController = \<lparr>fc_sendWindow = 1000, fc_bytesSent = 2, fc_lastBlockedAt = 0\<rparr>\<rparr>"

definition c10_completed :: sendStream where
  "c10_completed =
     c10_sent\<lparr>numOutstandingFrames := 0, prAckNotifyRetransmissionQueue := [c10_notifyA],
       completed := True,
       sender := [OnHasStreamData 0, OnHasStreamData 0, OnHasStreamData 0, OnHasStreamData 0,
                  OnStreamCompleted 0]\<rparr>"

definition c10_acked :: sendStream where
  "c10_acked = c10_sent\<lparr>numOutstandingFrames := 1\<rparr>"

definition c10_stuck :: sendStream where
  "c10_stuck =
     c10_sent\<lparr>numOutstandingFrames := 0, prAckNotifyRetransmissionQueue := [c10_notifyB],
       sender := [OnHasStreamData 0, OnHasStreamData 0, OnHasStreamData 0, OnHasStreamData 0]\<rparr>"

definition c10_queued :: sendStream where
  "c10_queued =
     c10_sent\<lparr>numOutstandingFrames := 0,
       retransmissionQueue :=
         [\<lparr>sf_StreamID = 0, sf_Offset = 1, sf_Data = [2], sf_Fin = True,
           sf_DataLenPresent = True, sf_fromPool = False\<rparr>],
       prAckNotifyRetransmissionQueue := [c10_notifyA],
       sender := [OnHasStreamData 0, OnHasStreamData 0, OnHasStreamData 0, OnHasStreamData 0,
                  OnHasStreamData 0]\<rparr>"

text \<open>For C8: the stream of C1 after the loss of its frame, with that frame as the only
  entry of the retransmission queue; the head and the tail of the frame when it is split
  at three bytes.\<close>

definition c8_sf :: StreamFrame where
  "c8_sf = \<lparr>sf_StreamID = 0, sf_Offset = 0, sf_Data = [1, 2, 3, 4, 5], sf_Fin = False,
            sf_DataLenPresent = True, sf_fromPool = False\<rparr>"

definition c8_stream :: sendStream where
  "c8_stream =
     c1_stream\<lparr>retransmissionQueue := [c8_sf], numOutstandingFrames := 0,
       sender := [OnHasStreamData 0, OnHasStreamData 0]\<rparr>"

definition c8_head :: StreamFrame where
  "c8_head = c8_sf\<lparr>sf_Data := [1, 2, 3], sf_fromPool := False\<rparr>"

definition c8_tail :: StreamFrame where
  "c8_tail = c8_sf\<lparr>sf_Data := [4, 5], sf_Offset := 3, sf_fromPool := True\<rparr>"

section \<open>Properties\<close>

subsection \<open>Sequencing and the reader\<close>

lemma andThen_simps [simp]:
  "andThen (Inl e) f = Inl e"
  "andThen (Inr v) f = f v"
  by (simp_all add: andThen_def)

lemma andThen_Inr_iff: "andThen x f = Inr y \<longleftrightarrow> (\<exists>v. x = Inr v \<and> f v = Inr y)"
  by (cases x) simp_all

lemma ReadByte_cases: "ReadByte r = Inl EOF \<or> (\<exists>v. ReadByte r = Inr v)"
  by (cases r) (simp_all add: ReadByte_def)

lemma quicvarint_Read_cases:
  "quicvarint_Read r = Inl EOF \<or> (\<exists>v. quicvarint_Read r = Inr v)"
  by (cases r) (simp_all add: quicvarint_Read_def ReadByte_def Let_def)

lemma optional_Read_cases:
  "(if c then quicvarint_Read r else Inr w) = Inl EOF \<or>
   (\<exists>v. (if c then quicvarint_Read r else Inr w) = Inr v)"
  using quicvarint_Read_cases [of r] by simp

subsection \<open>The PR\_STREAM codec\<close>

text \<open>
  Claim C2 (round trip \<open>decode(encode(f)) = f\<close> for all four frame kinds, the policy
  parameter surviving also when it needs a multi-byte varint). The code does not do
  this for PR\_STREAM. At the frame \<open>c2_frame\<close> (stream 0, offset 0, one data byte,
  length present, policy byte \<open>0x80\<close>, parameter 5000): \<open>Append\<close> writes the type byte
  \<open>0x0a\<close> (a STREAM type, not one of \<open>0x48..0x4f\<close>) and the parameter as the single
  byte \<open>0x88\<close>, where its varint is \<open>0x53 0x88\<close>; the decoder panics on these bytes;
  and the parameter bytes as written are not even a complete varint.
\<close>

theorem PRStreamFrame_round_trip_fails:
  "PRStreamFrame_Append c2_frame [] = Inr [0x0a, 0x00, 0x01, 0x80, 0x88, 0x01] \<and>
   parsePRStreamFrame [0x0a, 0x00, 0x01, 0x80, 0x88, 0x01] = Inl PanicNilDereference \<and>
   quicvarint_Append [] (prs_ptdaC c2_frame) = Inr [0x53, 0x88] \<and>
   quicvarint_Read [0x88, 0x01] = Inl EOF"
  by (simp add: PRStreamFrame_Append_def c2_frame_def quicvarint_Append_def uint64_of_def
        maxVarInt1_def maxVarInt2_def PRStreamFrame_DataLen_def parsePRStreamFrame_def
        ReadByte_def quicvarint_Read_def deref_def)

lemma andThen_EOF_or_panic:
  assumes "x = Inl EOF \<or> (\<exists>v. x = Inr v)"
    and "\<And>v. f v = Inl EOF \<or> f v = Inl PanicNilDereference"
  shows "andThen x f = Inl EOF \<or> andThen x f = Inl PanicNilDereference"
proof (cases x)
  case (Inl e)
  with assms(1) show ?thesis by simp
next
  case (Inr v)
  with assms(2) [of v] show ?thesis by simp
qed

lemma parsePRStreamFrame_EOF_or_panic:
  "parsePRStreamFrame bs = Inl EOF \<or> parsePRStreamFrame bs = Inl PanicNilDereference"
  unfolding parsePRStreamFrame_def Let_def case_prod_beta
  apply (rule andThen_EOF_or_panic, rule ReadByte_cases)
  apply (rule andThen_EOF_or_panic, rule quicvarint_Read_cases)
  apply (rule andThen_EOF_or_panic, rule optional_Read_cases)
  apply (rule andThen_EOF_or_panic, rule optional_Read_cases)
  apply (simp add: deref_def)
  done

text \<open>
  Claim C3 (the PR\_STREAM decoder is total: a frame or a decode error, the frame
  allocated before any field is assigned). The code does not do this: on every input
  the decoder either runs out of bytes while reading the header (\<open>EOF\<close>) or panics on
  the store into the nil frame; it never returns a frame. The second conjunct is the
  well-formed input "type \<open>0x48\<close>, stream 0, policy byte \<open>0x80\<close>, parameter 0".
\<close>

theorem parsePRStreamFrame_never_returns_frame:
  "(parsePRStreamFrame bs = Inl EOF \<or> parsePRStreamFrame bs = Inl PanicNilDereference) \<and>
   parsePRStreamFrame [0x48, 0x00, 0x80, 0x00] = Inl PanicNilDereference"
proof
  show "parsePRStreamFrame bs = Inl EOF \<or> parsePRStreamFrame bs = Inl PanicNilDereference"
    by (rule parsePRStreamFrame_EOF_or_panic)
  show "parsePRStreamFrame [0x48, 0x00, 0x80, 0x00] = Inl PanicNilDereference"
    by (simp add: parsePRStreamFrame_def ReadByte_def quicvarint_Read_def deref_def)
qed

text \<open>
  Claim C4 (\<open>max_data_len\<close> returns a payload length with which the whole encoded
  PR\_STREAM frame fits the budget). The code does not do this: it takes the PR
  overhead off the header length, which adds it to the space for data. At the frame
  shape \<open>c4_frame\<close> (stream 0, offset 0, no length field, parameter 0) and budget 10
  it returns 10, and the frame of that shape with 10 data bytes is 14 bytes long.
\<close>

theorem PRStreamFrame_MaxDataLen_exceeds_budget:
  "PRStreamFrame_MaxDataLen c4_frame 10 = Inr 10 \<and>
   PRStreamFrame_Length (c4_frame\<lparr>prs_Data := replicate 10 0\<rparr>) = Inr 14"
  by (simp add: PRStreamFrame_MaxDataLen_def PRStreamFrame_Length_def c4_frame_def
        quicvarint_Len_def uint64_of_def maxVarInt1_def PRStreamFrame_DataLen_def)

text \<open>
  Claim C7 (split identity for a budget strictly between the header and the encoded
  length). The code does not do this for PR\_STREAM: \<open>c7_frame\<close> is 10 bytes long with a
  5 byte header; at budget 9 \<open>MaxDataLen\<close> answers 8, more than the 5 data bytes of the
  frame, and the re-slicing in \<open>MaybeSplitOffFrame\<close> panics.
\<close>

theorem PRStreamFrame_MaybeSplitOffFrame_panics:
  "PRStreamFrame_Length c7_frame = Inr 10 \<and>
   PRStreamFrame_Length (c7_frame\<lparr>prs_Data := []\<rparr>) = Inr 5 \<and>
   PRStreamFrame_MaxDataLen c7_frame 9 = Inr 8 \<and>
   PRStreamFrame_MaybeSplitOffFrame c7_frame 9 = Inl PanicSliceBounds"
  by (simp add: PRStreamFrame_MaybeSplitOffFrame_def PRStreamFrame_MaxDataLen_def
        PRStreamFrame_Length_def c7_frame_def GetPRStreamFrame_def
        quicvarint_Len_def uint64_of_def maxVarInt1_def PRStreamFrame_DataLen_def)

subsection \<open>Evaluating the stream\<close>

lemmas wire_defs =
  quicvarint_Len_def quicvarint_Append_def quicvarint_Read_def ReadByte_def ReadFull_def
  maxVarInt1_def maxVarInt2_def maxVarInt4_def maxVarInt8_def uint64_of_def int64_of_def
  MaxPacketBufferSize_def MinStreamFrameBufferSize_def MaxByteCount_def deref_def
  StreamFrame_DataLen_def StreamFrame_Length_def StreamFrame_MaxDataLen_def
  StreamFrame_MaybeSplitOffFrame_def GetStreamFrame_def PRStreamFrame_DataLen_def

lemmas stream_defs =
  newSendStream_def call_sender_def signalWrite_def len_slice_def canBufferStreamFrame_def
  deadlinePassed_def Write_entry_def Write_after_loop_def Write_iteration_def Write_start_def
  maybeGetRetransmission_def getDataForWriting_def popNewStreamFrameWithoutBuffer_def
  popNewStreamFrame_def popRetransmittedStreamFrame_def popNewData_def
  popNewOrRetransmittedStreamFrame_def wrapStreamFrame_def popStreamFrame_def
  isNewlyCompleted_def frameAcked_def prStreamframeAcked_def queueRetransmission_def
  prAckNotifyQueueRetransmission_def prQueueRetransmission_def OnAcked_def OnLost_def
  Close_def cancelWriteImpl_def CancelWrite_def handleStopSendingFrame_def
  updateSendWindow_def SetWriteDeadline_def closeForShutdown_def
  SendWindowSize_def IsNewlyBlocked_def AddBytesSent_def UpdateSendWindow_def

subsection \<open>The PR policy evaluator\<close>

text \<open>The switch of \<open>prQueueRetransmission\<close> is on the policy parameter: unless the
  parameter is 128, the lost frame is retransmitted as a plain STREAM frame, whatever the
  policy byte and the random draw.\<close>

lemma prQueueRetransmission_parameter_not_128:
  "prs_ptdaC frame \<noteq> 0x80 \<Longrightarrow>
   prQueueRetransmission r frame s =
   queueRetransmission
     \<lparr>sf_StreamID = prs_StreamID frame, sf_Offset = prs_Offset frame,
      sf_Data = prs_Data frame, sf_Fin = prs_Fin frame,
      sf_DataLenPresent = prs_DataLenPresent frame, sf_fromPool = False\<rparr> s"
  by (simp add: prQueueRetransmission_def)

text \<open>
  Claim C1 (under the Probability policy, \<open>PTDA = 0x80\<close>, a lost frame whose
  \<open>ptda_c\<close> exceeds the draw \<open>r\<close> is replaced by a PR\_ACK\_NOTIFY on the notify queue).
  The code does not do this. With the policy configured with parameter 5000,
  \<open>Write\<close> of five bytes and \<open>popStreamFrame\<close> give the frame \<open>c1_frame\<close> and the
  stream \<open>c1_stream\<close>; when that frame is lost and the draw is 0, so that
  \<open>ptda_c > r\<close>, the frame goes to the retransmission queue as a plain STREAM frame
  and the notify queue stays empty.
\<close>

theorem prQueueRetransmission_probability_policy_retransmits:
  "popStreamFrame c1_config 1200 (snd (Write_start 0 [1, 2, 3, 4, 5] (newSendStream 0 fc0))) =
     Inr ((Some (PRFrame c1_frame), False), c1_stream) \<and>
   prs_PTDA c1_frame = 0x80 \<and> uint (prs_ptdaC c1_frame) > 0 \<and>
   OnLost 0 (PRFrame c1_frame) c1_stream =
     Inr (c1_stream\<lparr>retransmissionQueue :=
            [\<lparr>sf_StreamID = 0, sf_Offset = 0, sf_Data = [1, 2, 3, 4, 5], sf_Fin = False,
              sf_DataLenPresent = True, sf_fromPool = False\<rparr>],
          prAckNotifyRetransmissionQueue := [],
          numOutstandingFrames := 0,
          sender := [OnHasStreamData 0, OnHasStreamData 0]\<rparr>)"
  by (simp add: stream_defs wire_defs c1_config_def fc0_def c1_stream_def c1_frame_def)

subsection \<open>Write: the order of the sticky errors\<close>

text \<open>
  Claim C5 as stated (ClosedForShutdown is looked at first: a stream both shut down and
  closed by the producer yields the shutdown error) fails: \<open>Write\<close> on such a stream
  returns the write-on-closed-stream error.
\<close>

theorem Write_closed_before_shutdown_counterexample:
  "finishedWriting c5_closed_shutdown \<and> closedForShutdown c5_closed_shutdown \<and>
   closeForShutdownErr c5_closed_shutdown = Some (ErrShutdown 1) \<and>
   fst (Write_start 0 [1] c5_closed_shutdown) = Returned 0 (Some (ErrWriteOnClosedStream 0)) \<and>
   fst (Write_start 0 [1] c5_closed_shutdown) \<noteq> Returned 0 (Some (ErrShutdown 1))"
  by (simp add: c5_closed_shutdown_def stream_defs fc0_def)

text \<open>
  Claim C5, amended: at the entry of \<open>Write\<close> the sticky errors are looked at in the
  order WriteAfterClose (\<open>finishedWriting\<close>), WriteCanceled (\<open>canceledWrite\<close>),
  ClosedForShutdown (a shutdown error is stored), DeadlineExceeded; \<open>Write\<close> returns
  0 bytes and the error of the first condition that holds.
\<close>

theorem Write_error_precedence:
  "(finishedWriting s \<longrightarrow>
      fst (Write_start now p s) = Returned 0 (Some (ErrWriteOnClosedStream (streamID s)))) \<and>
   (\<not> finishedWriting s \<and> canceledWrite s \<longrightarrow>
      fst (Write_start now p s) = Returned 0 (cancelWriteErr s)) \<and>
   (\<not> finishedWriting s \<and> \<not> canceledWrite s \<and> closeForShutdownErr s = Some e \<longrightarrow>
      fst (Write_start now p s) = Returned 0 (Some e)) \<and>
   (\<not> finishedWriting s \<and> \<not> canceledWrite s \<and> closeForShutdownErr s = None \<and>
    deadlinePassed now (deadline s) \<longrightarrow>
      fst (Write_start now p s) = Returned 0 (Some ErrDeadline))"
  by (simp add: Write_start_def Write_entry_def)

theorem Write_error_precedence_witness:
  "fst (Write_start 0 [1] c5_closed_shutdown) = Returned 0 (Some (ErrWriteOnClosedStream 0)) \<and>
   fst (Write_start 0 [1] c5_canceled_shutdown) = Returned 0 (Some (ErrWriteCanceled 0 7)) \<and>
   fst (Write_start 10 [1] c5_shutdown_deadline) = Returned 0 (Some (ErrShutdown 1)) \<and>
   fst (Write_start 10 [1] c5_deadline) = Returned 0 (Some ErrDeadline)"
proof -
  have h1: "finishedWriting c5_closed_shutdown" "streamID c5_closed_shutdown = 0"
    by (simp_all add: c5_closed_shutdown_def stream_defs)
  have h2: "\<not> finishedWriting c5_canceled_shutdown \<and> canceledWrite c5_canceled_shutdown"
    "cancelWriteErr c5_canceled_shutdown = Some (ErrWriteCanceled 0 7)"
    by (simp_all add: c5_canceled_shutdown_def stream_defs)
  have h3: "\<not> finishedWriting c5_shutdown_deadline \<and> \<not> canceledWrite c5_shutdown_deadline \<and>
      closeForShutdownErr c5_shutdown_deadline = Some (ErrShutdown 1)"
    by (simp add: c5_shutdown_deadline_def stream_defs)
  have h4: "\<not> finishedWriting c5_deadline \<and> \<not> canceledWrite c5_deadline \<and>
      closeForShutdownErr c5_deadline = None \<and> deadlinePassed 10 (deadline c5_deadline)"
    by (simp add: c5_deadline_def stream_defs)
  from Write_error_precedence [of c5_closed_shutdown 0 "[1]"] h1
  have "fst (Write_start 0 [1] c5_closed_shutdown) =
      Returned 0 (Some (ErrWriteOnClosedStream 0))" by simp
  moreover from Write_error_precedence [of c5_canceled_shutdown 0 "[1]"] h2
  have "fst (Write_start 0 [1] c5_canceled_shutdown) =
      Returned 0 (Some (ErrWriteCanceled 0 7))" by simp
  moreover from Write_error_precedence [of c5_shutdown_deadline 10 "[1]" "ErrShutdown 1"] h3
  have "fst (Write_start 10 [1] c5_shutdown_deadline) = Returned 0 (Some (ErrShutdown 1))"
    by simp
  moreover from Write_error_precedence [of c5_deadline 10 "[1]"] h4
  have "fst (Write_start 10 [1] c5_deadline) = Returned 0 (Some ErrDeadline)" by simp
  ultimately show ?thesis by simp
qed

subsection \<open>Varints decode to what was encoded\<close>

text \<open>A value that fits \<open>n\<close> bits has no bit at or above \<open>n\<close>.\<close>

lemma le_maxVarInt_less:
  "(i::uint64) \<le> 63 \<Longrightarrow> i < 2 ^ 6"
  "(i::uint64) \<le> 16383 \<Longrightarrow> i < 2 ^ 14"
  "(i::uint64) \<le> 1073741823 \<Longrightarrow> i < 2 ^ 30"
  "(i::uint64) \<le> 4611686018427387903 \<Longrightarrow> i < 2 ^ 62"
  by (simp_all add: word_le_nat_alt word_less_nat_alt)

lemma low_bits_only:
  assumes a: "(i::uint64) < 2 ^ n" and b: "bit i k"
  shows "k < n"
proof -
  from a have e: "i AND mask n = i" by (rule less_mask_eq)
  from b have "bit (i AND mask n) k" by (simp only: e)
  then have "bit (mask n :: uint64) k" by (simp only: bit_and_iff)
  then show ?thesis by (simp only: bit_mask_iff)
qed

text \<open>One step of \<open>be_value\<close> puts back the byte that the encoder cut off.\<close>

lemma be_step_or:
  "push_bit 8 (drop_bit (k + 8) (i::uint64)) OR ucast (ucast (drop_bit k i) :: byte)
     = drop_bit k i"
proof (rule bit_word_eqI)
  fix n assume "n < LENGTH(64)"
  show "bit (push_bit 8 (drop_bit (k + 8) i) OR ucast (ucast (drop_bit k i) :: byte)) n
          = bit (drop_bit k i) n"
  proof (cases "n < 8")
    case True
    then show ?thesis by (simp add: bit_simps)
  next
    case False
    then have "k + 8 + (n - 8) = k + n" by simp
    with False \<open>n < LENGTH(64)\<close> show ?thesis by (simp add: bit_simps)
  qed
qed

lemma be_step_disjoint: "push_bit 8 (x::uint64) AND ucast (b :: byte) = 0"
proof (rule bit_word_eqI)
  fix n assume "n < LENGTH(64)"
  show "bit (push_bit 8 x AND ucast b) n = bit (0::uint64) n"
  proof (cases "n < 8")
    case True
    then show ?thesis by (simp add: bit_simps)
  next
    case False
    have "\<not> bit b n" using False bit_imp_le_length [of b n] by auto
    then show ?thesis by (simp add: bit_simps)
  qed
qed

lemma be_step:
  "push_bit 8 (drop_bit (k + 8) (i::uint64)) + ucast (ucast (drop_bit k i) :: byte)
     = drop_bit k i"
  using disjunctive_add_eq_or [OF be_step_disjoint, of "drop_bit (k + 8) i" "ucast (drop_bit k i)"]
  by (simp only: be_step_or)

lemma be_steps:
  "push_bit 8 (drop_bit 8 (i::uint64)) + ucast (ucast i :: byte) = i"
  "push_bit 8 (drop_bit 16 i) + ucast (ucast (drop_bit 8 i) :: byte) = drop_bit 8 i"
  "push_bit 8 (drop_bit 24 i) + ucast (ucast (drop_bit 16 i) :: byte) = drop_bit 16 i"
  "push_bit 8 (drop_bit 32 i) + ucast (ucast (drop_bit 24 i) :: byte) = drop_bit 24 i"
  "push_bit 8 (drop_bit 40 i) + ucast (ucast (drop_bit 32 i) :: byte) = drop_bit 32 i"
  "push_bit 8 (drop_bit 48 i) + ucast (ucast (drop_bit 40 i) :: byte) = drop_bit 40 i"
  "push_bit 8 (drop_bit 56 i) + ucast (ucast (drop_bit 48 i) :: byte) = drop_bit 48 i"
  using be_step [of 0 i] be_step [of 8 i] be_step [of 16 i] be_step [of 24 i]
    be_step [of 32 i] be_step [of 40 i] be_step [of 48 i]
  by simp_all

text \<open>The first byte of a varint: the top six value bits under the two-bit length tag.\<close>

lemma first_byte_low6:
  assumes "(i::uint64) < 2 ^ (s + 6)" and "bit (ucast (drop_bit s i) :: byte) n"
  shows "n < 6"
proof -
  from assms(2) have "bit i (s + n)" by (simp add: bit_simps)
  with assms(1) have "s + n < s + 6" by (rule low_bits_only)
  then show ?thesis by simp
qed

lemma byte_and_c0:
  assumes "\<And>n. bit (h::byte) n \<Longrightarrow> n < 6"
  shows "h AND 0xc0 = 0"
proof -
  have "h AND push_bit 6 (mask 2) = 0"
  proof (rule bit_word_eqI)
    fix n assume "n < LENGTH(8)"
    show "bit (h AND push_bit 6 (mask 2)) n = bit (0::byte) n"
    proof (cases "bit h n")
      case True
      then have "n < 6" by (rule assms)
      then show ?thesis by (simp add: bit_simps)
    next
      case False
      then show ?thesis by (simp add: bit_simps)
    qed
  qed
  then show ?thesis by (simp add: mask_eq_exp_minus_1)
qed

lemma byte_and_3f:
  assumes "\<And>n. bit (h::byte) n \<Longrightarrow> n < 6"
  shows "h AND 0x3f = h"
proof -
  have "h AND mask 6 = h"
  proof (rule bit_word_eqI)
    fix n assume "n < LENGTH(8)"
    show "bit (h AND mask 6) n = bit h n"
    proof (cases "bit h n")
      case True
      then have "n < 6" by (rule assms)
      with True show ?thesis by (simp add: bit_simps)
    next
      case False
      then show ?thesis by (simp add: bit_simps)
    qed
  qed
  then show ?thesis by (simp add: mask_eq_exp_minus_1)
qed

lemma ucast_ucast_low6:
  assumes "(i::uint64) < 2 ^ (s + 6)"
  shows "(ucast (ucast (drop_bit s i) :: byte) :: uint64) = drop_bit s i"
proof (rule bit_word_eqI)
  fix n assume "n < LENGTH(64)"
  show "bit (ucast (ucast (drop_bit s i) :: byte) :: uint64) n = bit (drop_bit s i) n"
  proof (cases "bit i (s + n)")
    case True
    with assms have "s + n < s + 6" by (rule low_bits_only)
    with True show ?thesis by (simp add: bit_simps)
  next
    case False
    then show ?thesis by (simp add: bit_simps)
  qed
qed

lemma first_byte_tag:
  assumes "(i::uint64) < 2 ^ (s + 6)" and "tag AND 0xc0 = tag" and "tag AND 0x3f = 0"
  shows "(ucast (drop_bit s i) OR tag) AND 0xc0 = (tag::byte)"
    and "(ucast (drop_bit s i) OR tag) AND 0x3f = (ucast (drop_bit s i) :: byte)"
proof -
  let ?h = "ucast (drop_bit s i) :: byte"
  have h: "\<And>n. bit ?h n \<Longrightarrow> n < 6" using assms(1) by (rule first_byte_low6)
  have "(?h OR tag) AND 0xc0 = (?h AND 0xc0) OR (tag AND 0xc0)"
    by (rule bit.conj_disj_distrib2)
  also have "\<dots> = tag" by (simp only: byte_and_c0 [OF h] assms(2)) simp
  finally show "(?h OR tag) AND 0xc0 = tag" .
  have "(?h OR tag) AND 0x3f = (?h AND 0x3f) OR (tag AND 0x3f)"
    by (rule bit.conj_disj_distrib2)
  also have "\<dots> = ?h" by (simp only: byte_and_3f [OF h] assms(3)) simp
  finally show "(?h OR tag) AND 0x3f = ?h" .
qed

text \<open>\<open>quicvarint_Read\<close> on a first byte whose tag and value bits are known.\<close>

lemma quicvarint_Read_Cons:
  assumes "fb AND 0xc0 = tag" and "drop_bit 6 tag = k" and "fb AND 0x3f = b1"
    and "n = 2 ^ unat k - 1" and "n \<le> length r1"
  shows "quicvarint_Read (fb # r1) = Inr (be_value (ucast b1) (take n r1), drop n r1)"
proof -
  have a: "drop_bit 6 (fb AND 0xc0) = k" using assms(1,2) by (simp only:)
  have b: "fb AND (0xff - 0xc0) = b1" using assms(3) by simp
  show ?thesis
    unfolding quicvarint_Read_def ReadByte_def Let_def
    using assms(4,5) by (simp only: a b list.case andThen_simps prod.case) simp
qed

lemma quicvarint_Read_1:
  assumes "i < 2 ^ 6"
  shows "quicvarint_Read ([ucast i] @ rest) = Inr (i, rest)"
proof -
  from assms have a: "i < 2 ^ (0 + 6)" by simp
  have "quicvarint_Read (ucast i # rest)
      = Inr (be_value (ucast (ucast i :: byte)) (take 0 rest), drop 0 rest)"
    using first_byte_tag [OF a, of 0]
    by (intro quicvarint_Read_Cons [where tag = 0 and k = 0]) simp_all
  then show ?thesis using ucast_ucast_low6 [OF a] by simp
qed

lemma quicvarint_Read_2:
  assumes "i < 2 ^ 14"
  shows "quicvarint_Read ([ucast (drop_bit 8 i) OR 0x40, ucast i] @ rest) = Inr (i, rest)"
proof -
  from assms have a: "i < 2 ^ (8 + 6)" by simp
  have "quicvarint_Read ((ucast (drop_bit 8 i) OR 0x40) # ucast i # rest)
      = Inr (be_value (ucast (ucast (drop_bit 8 i) :: byte)) (take 1 (ucast i # rest)),
             drop 1 (ucast i # rest))"
    using first_byte_tag [OF a, of "0x40"]
    by (intro quicvarint_Read_Cons [where tag = "0x40" and k = 1]) simp_all
  then show ?thesis using ucast_ucast_low6 [OF a] by (simp add: be_steps)
qed

lemma quicvarint_Read_4:
  assumes "i < 2 ^ 30"
  shows "quicvarint_Read ([ucast (drop_bit 24 i) OR 0x80, ucast (drop_bit 16 i),
            ucast (drop_bit 8 i), ucast i] @ rest) = Inr (i, rest)"
proof -
  from assms have a: "i < 2 ^ (24 + 6)" by simp
  let ?r = "ucast (drop_bit 16 i) # ucast (drop_bit 8 i) # ucast i # rest"
  have "quicvarint_Read ((ucast (drop_bit 24 i) OR 0x80) # ?r)
      = Inr (be_value (ucast (ucast (drop_bit 24 i) :: byte)) (take 3 ?r), drop 3 ?r)"
    using first_byte_tag [OF a, of "0x80"]
    by (intro quicvarint_Read_Cons [where tag = "0x80" and k = 2]) simp_all
  then show ?thesis using ucast_ucast_low6 [OF a] by (simp add: be_steps)
qed

lemma quicvarint_Read_8:
  assumes "i < 2 ^ 62"
  shows "quicvarint_Read ([ucast (drop_bit 56 i) OR 0xc0, ucast (drop_bit 48 i),
            ucast (drop_bit 40 i), ucast (drop_bit 32 i), ucast (drop_bit 24 i),
            ucast (drop_bit 16 i), ucast (drop_bit 8 i), ucast i] @ rest) = Inr (i, rest)"
proof -
  from assms have a: "i < 2 ^ (56 + 6)" by simp
  let ?r = "ucast (drop_bit 48 i) # ucast (drop_bit 40 i) # ucast (drop_bit 32 i) #
            ucast (drop_bit 24 i) # ucast (drop_bit 16 i) # ucast (drop_bit 8 i) #
            ucast i # rest"
  have "quicvarint_Read ((ucast (drop_bit 56 i) OR 0xc0) # ?r)
      = Inr (be_value (ucast (ucast (drop_bit 56 i) :: byte)) (take 7 ?r), drop 7 ?r)"
    using first_byte_tag [OF a, of "0xc0"]
    by (intro quicvarint_Read_Cons [where tag = "0xc0" and k = 3]) simp_all
  then show ?thesis using ucast_ucast_low6 [OF a] by (simp add: be_steps)
qed

text \<open>Whatever \<open>quicvarint.Append\<close> writes for a value, \<open>quicvarint.Read\<close> reads that
  value back and stops right behind it.\<close>

lemma varint_round_trip:
  assumes "varint i = Inr e"
  shows "quicvarint_Read (e @ rest) = Inr (i, rest)"
proof -
  consider "i \<le> maxVarInt1" | "\<not> i \<le> maxVarInt1" "i \<le> maxVarInt2"
    | "\<not> i \<le> maxVarInt1" "\<not> i \<le> maxVarInt2" "i \<le> maxVarInt4"
    | "\<not> i \<le> maxVarInt1" "\<not> i \<le> maxVarInt2" "\<not> i \<le> maxVarInt4" "i \<le> maxVarInt8"
    | "\<not> i \<le> maxVarInt1" "\<not> i \<le> maxVarInt2" "\<not> i \<le> maxVarInt4" "\<not> i \<le> maxVarInt8"
    by blast
  then show ?thesis
  proof cases
    case 1
    then have "i < 2 ^ 6" unfolding maxVarInt1_def by (intro le_maxVarInt_less)
    then have "quicvarint_Read ([ucast i] @ rest) = Inr (i, rest)" by (rule quicvarint_Read_1)
    moreover from assms 1 have "e = [ucast i]" by (simp add: varint_def quicvarint_Append_def)
    ultimately show ?thesis by simp
  next
    case 2
    then have "i < 2 ^ 14" unfolding maxVarInt2_def by (intro le_maxVarInt_less)
    then have "quicvarint_Read ([ucast (drop_bit 8 i) OR 0x40, ucast i] @ rest) = Inr (i, rest)"
      by (rule quicvarint_Read_2)
    moreover from assms 2 have "e = [ucast (drop_bit 8 i) OR 0x40, ucast i]"
      by (simp add: varint_def quicvarint_Append_def)
    ultimately show ?thesis by simp
  next
    case 3
    then have "i < 2 ^ 30" unfolding maxVarInt4_def by (intro le_maxVarInt_less)
    then have "quicvarint_Read ([ucast (drop_bit 24 i) OR 0x80, ucast (drop_bit 16 i),
            ucast (drop_bit 8 i), ucast i] @ rest) = Inr (i, rest)"
      by (rule quicvarint_Read_4)
    moreover from assms 3 have "e = [ucast (drop_bit 24 i) OR 0x80, ucast (drop_bit 16 i),
            ucast (drop_bit 8 i), ucast i]"
      by (simp add: varint_def quicvarint_Append_def)
    ultimately show ?thesis by simp
  next
    case 4
    then have "i < 2 ^ 62" unfolding maxVarInt8_def by (intro le_maxVarInt_less)
    then have "quicvarint_Read ([ucast (drop_bit 56 i) OR 0xc0, ucast (drop_bit 48 i),
            ucast (drop_bit 40 i), ucast (drop_bit 32 i), ucast (drop_bit 24 i),
            ucast (drop_bit 16 i), ucast (drop_bit 8 i), ucast i] @ rest) = Inr (i, rest)"
      by (rule quicvarint_Read_8)
    moreover from assms 4 have "e = [ucast (drop_bit 56 i) OR 0xc0, ucast (drop_bit 48 i),
            ucast (drop_bit 40 i), ucast (drop_bit 32 i), ucast (drop_bit 24 i),
            ucast (drop_bit 16 i), ucast (drop_bit 8 i), ucast i]"
      by (simp add: varint_def quicvarint_Append_def)
    ultimately show ?thesis by simp
  next
    case 5
    with assms show ?thesis by (simp add: varint_def quicvarint_Append_def)
  qed
qed

subsection \<open>The PR\_ACK\_NOTIFY codec\<close>

lemma quicvarint_Append_varint:
  "quicvarint_Append b i = andThen (varint i) (\<lambda>e. Inr (b @ e))"
  by (simp add: quicvarint_Append_def varint_def)

lemma PRAckNotifyFrame_typeByte_bits:
  "PRAckNotifyFrame_typeByte f AND 0xf8 = 0x58 \<and>
   PRAckNotifyFrame_typeByte f \<noteq> 0x50 \<and>
   bit (PRAckNotifyFrame_typeByte f) 0 = pan_Fin f \<and>
   bit (PRAckNotifyFrame_typeByte f) 1 = pan_DataLenPresent f \<and>
   bit (PRAckNotifyFrame_typeByte f) 2 = (pan_Offset f \<noteq> 0)"
  by (cases "pan_Fin f"; cases "pan_DataLenPresent f"; cases "pan_Offset f = 0";
      simp add: PRAckNotifyFrame_typeByte_def)

lemma PRAckNotifyFrame_Append_layout:
  "PRAckNotifyFrame_Append f b =
     andThen (spec_PR_ACK_NOTIFY_layout (PRAckNotifyFrame_typeByte f) f) (\<lambda>bs. Inr (b @ bs))"
  unfolding PRAckNotifyFrame_Append_def spec_PR_ACK_NOTIFY_layout_def Let_def
  apply (simp only: quicvarint_Append_varint)
  apply (cases "varint (uint64_of (pan_StreamID f))"; simp)
  apply (cases "varint (pan_PtdaC f)"; simp)
  apply (cases "varint (pan_PRDataLen f)"; cases "varint (uint64_of (pan_Offset f))";
         simp add: PRAckNotifyFrame_typeByte_def)
  done

text \<open>The parser of the first version tests the three flags in the type byte that its
  \<open>Append\<close> writes, and reads the fields in the order \<open>Append\<close> writes them.\<close>

lemma int64_of_uint64_of: "is_int64 x \<Longrightarrow> int64_of (uint64_of x) = x"
  by (simp add: is_int64_def int64_of_def uint64_of_def sint_sbintrunc'
        signed_take_bit_int_eq_self)

lemma PRAckNotifyFrame_typeByte_flags:
  "(PRAckNotifyFrame_typeByte f AND 0b100 > 0) = (pan_Offset f \<noteq> 0)"
  "(PRAckNotifyFrame_typeByte f AND 0b1 > 0) = pan_Fin f"
  "(PRAckNotifyFrame_typeByte f AND 0b10 > 0) = pan_DataLenPresent f"
  by (cases "pan_Fin f"; cases "pan_DataLenPresent f"; cases "pan_Offset f = 0";
      simp add: PRAckNotifyFrame_typeByte_def)+

lemma parsePRAckNotifyFrame_layout:
  assumes l: "spec_PR_ACK_NOTIFY_layout (PRAckNotifyFrame_typeByte f) f = Inr e"
    and sid: "is_int64 (pan_StreamID f)" and off: "is_int64 (pan_Offset f)"
    and pf: "policy_flags_of_PTDA f"
  shows "parsePRAckNotifyFrame (e @ rest) = Inr (f, rest)"
proof -
  from l obtain e1 where e1: "varint (uint64_of (pan_StreamID f)) = Inr e1"
    and l1: "andThen (varint (pan_PtdaC f)) (\<lambda>ptda_c.
       andThen (if pan_Offset f \<noteq> 0 then varint (uint64_of (pan_Offset f)) else Inr [])
         (\<lambda>offset.
       andThen (varint (pan_PRDataLen f)) (\<lambda>pr_data_len.
       Inr ([PRAckNotifyFrame_typeByte f] @ e1 @ [pan_PTDA f] @ ptda_c @ offset @
            pr_data_len)))) = Inr e"
    unfolding spec_PR_ACK_NOTIFY_layout_def andThen_Inr_iff by blast
  from l1 obtain e2 where e2: "varint (pan_PtdaC f) = Inr e2"
    and l2: "andThen (if pan_Offset f \<noteq> 0 then varint (uint64_of (pan_Offset f)) else Inr [])
         (\<lambda>offset.
       andThen (varint (pan_PRDataLen f)) (\<lambda>pr_data_len.
       Inr ([PRAckNotifyFrame_typeByte f] @ e1 @ [pan_PTDA f] @ e2 @ offset @
            pr_data_len))) = Inr e"
    unfolding andThen_Inr_iff by blast
  from l2 obtain e3 where
    e3: "(if pan_Offset f \<noteq> 0 then varint (uint64_of (pan_Offset f)) else Inr []) = Inr e3"
    and l3: "andThen (varint (pan_PRDataLen f)) (\<lambda>pr_data_len.
       Inr ([PRAckNotifyFrame_typeByte f] @ e1 @ [pan_PTDA f] @ e2 @ e3 @ pr_data_len))
         = Inr e"
    unfolding andThen_Inr_iff by blast
  from l3 obtain e4 where e4: "varint (pan_PRDataLen f) = Inr e4"
    and e: "e = [PRAckNotifyFrame_typeByte f] @ e1 @ [pan_PTDA f] @ e2 @ e3 @ e4"
    unfolding andThen_Inr_iff by auto
  let ?r5 = "e4 @ rest"
  let ?r4 = "e3 @ ?r5"
  let ?r3 = "e2 @ ?r4"
  let ?r2 = "pan_PTDA f # ?r3"
  let ?r1 = "e1 @ ?r2"
  have p0: "ReadByte (e @ rest) = Inr (PRAckNotifyFrame_typeByte f, ?r1)"
    by (simp add: e ReadByte_def)
  have p1: "quicvarint_Read ?r1 = Inr (uint64_of (pan_StreamID f), ?r2)"
    using e1 by (rule varint_round_trip)
  have p2: "ReadByte ?r2 = Inr (pan_PTDA f, ?r3)" by (simp add: ReadByte_def)
  have p3: "quicvarint_Read ?r3 = Inr (pan_PtdaC f, ?r4)"
    using e2 by (rule varint_round_trip)
  have p4: "(if pan_Offset f \<noteq> 0 then quicvarint_Read ?r4 else Inr (0, ?r4))
              = Inr (uint64_of (pan_Offset f), ?r5)"
  proof (cases "pan_Offset f = 0")
    case True
    with e3 show ?thesis by (simp add: uint64_of_def)
  next
    case False
    with e3 have "varint (uint64_of (pan_Offset f)) = Inr e3" by simp
    then have "quicvarint_Read ?r4 = Inr (uint64_of (pan_Offset f), ?r5)"
      by (rule varint_round_trip)
    with False show ?thesis by simp
  qed
  have p5: "quicvarint_Read ?r5 = Inr (pan_PRDataLen f, rest)"
    using e4 by (rule varint_round_trip)
  have "parsePRAckNotifyFrame (e @ rest) =
      Inr (\<lparr>pan_StreamID = int64_of (uint64_of (pan_StreamID f)),
            pan_Offset = int64_of (uint64_of (pan_Offset f)),
            pan_PRDataLen = pan_PRDataLen f, pan_Fin = pan_Fin f,
            pan_DataLenPresent = pan_DataLenPresent f, pan_PTDA = pan_PTDA f,
            pan_P = (pan_PTDA f AND 0xf0 = 0x80), pan_T = (pan_PTDA f AND 0xf0 = 0x40),
            pan_D = (pan_PTDA f AND 0xf0 = 0x20), pan_A = (pan_PTDA f AND 0xf0 = 0x10),
            pan_PtdaC = pan_PtdaC f\<rparr>, rest)"
    unfolding parsePRAckNotifyFrame_def Let_def
    by (simp only: p0 andThen_simps prod.case PRAckNotifyFrame_typeByte_flags p1 p2 p3 p4 p5)
  also have "\<dots> = Inr (f, rest)"
    using pf by (simp add: int64_of_uint64_of [OF sid] int64_of_uint64_of [OF off]
                   policy_flags_of_PTDA_def)
  finally show ?thesis .
qed

text \<open>
  \<open>Append\<close> of the second version of the file writes another frame: a type byte in
  \<open>0x08..0x0f\<close>, the range of STREAM, then \<open>stream_id\<close>, the optional \<open>offset\<close>, the
  length only when the length flag is set, \<open>PTDA\<close>, and the low byte of the policy
  parameter. These are the type byte and the one-byte parameter of \<open>PRStreamFrame.Append\<close>.
\<close>

lemma PRAckNotifyFrame_Append_second_layout:
  "PRAckNotifyFrame_Append_second f b =
     andThen (varint (uint64_of (pan_StreamID f))) (\<lambda>stream_id.
     andThen (if pan_Offset f \<noteq> 0 then varint (uint64_of (pan_Offset f)) else Inr [])
       (\<lambda>offset.
     andThen (if pan_DataLenPresent f then varint (uint64_of (PRAckNotifyFrame_DataLen f))
              else Inr []) (\<lambda>len.
     Inr (b @ [0x08 + (if pan_Fin f then 1 else 0) + (if pan_DataLenPresent f then 2 else 0) +
                 (if pan_Offset f \<noteq> 0 then 4 else 0)] @
          stream_id @ offset @ len @ [pan_PTDA f, ucast (pan_PtdaC f)]))))"
  unfolding PRAckNotifyFrame_Append_second_def Let_def
  apply (simp only: quicvarint_Append_varint)
  apply (cases "varint (uint64_of (pan_StreamID f))"; simp)
  apply (cases "varint (uint64_of (pan_Offset f))";
         cases "varint (uint64_of (PRAckNotifyFrame_DataLen f))"; simp)
  done

text \<open>
  The spec's type byte \<open>0x50\<close> cannot carry the flag bits: with the length flag, which
  the stream sets on every notification it queues, it is \<open>0x52\<close>, the type byte that
  \<open>PRDatagramFrame.Append\<close> writes.
\<close>

lemma spec_PR_ACK_NOTIFY_typeByte_is_PR_DATAGRAM:
  "spec_PR_ACK_NOTIFY_typeByte c9_frame = 0x52 \<and>
   PRDatagramFrame_Append c9_datagram [] = Inr [0x52, 0x80, 0x00]"
  by (simp add: spec_PR_ACK_NOTIFY_typeByte_def c9_frame_def PRDatagramFrame_Append_def
        c9_datagram_def)

text \<open>
  Claim C9 as stated (every encoded PR\_ACK\_NOTIFY frame begins with the type byte
  \<open>0x50\<close> and carries \<open>stream_id\<close>, PTDA, \<open>ptda_c\<close>, the optional \<open>offset\<close> and
  \<open>pr_data_len\<close> in this order) fails: \<open>Append\<close> encodes the notification \<open>c9_frame\<close>
  with the type byte \<open>0x5a\<close>. \<open>Append\<close> of the second version of the file gives it the
  type byte \<open>0x0a\<close> and puts the length before the PR fields, bytes that
  \<open>parsePRAckNotifyFrame\<close> cannot read.
\<close>

theorem PRAckNotifyFrame_type_byte_counterexample:
  "PRAckNotifyFrame_Append c9_frame [] = Inr [0x5a, 0x00, 0x80, 0x00, 0x05] \<and>
   PRAckNotifyFrame_Append c9_frame [] \<noteq> Inr [0x50, 0x00, 0x80, 0x00, 0x05] \<and>
   PRAckNotifyFrame_Append_second c9_frame [] = Inr [0x0a, 0x00, 0x05, 0x80, 0x00] \<and>
   parsePRAckNotifyFrame [0x0a, 0x00, 0x05, 0x80, 0x00] = Inl EOF"
  by (simp add: PRAckNotifyFrame_Append_def PRAckNotifyFrame_Append_second_def c9_frame_def
        wire_defs PRAckNotifyFrame_DataLen_def parsePRAckNotifyFrame_def)

text \<open>
  Claim C9, amended: a PR\_ACK\_NOTIFY frame that \<open>PRAckNotifyFrame.Append\<close> of the first
  version of the file encodes (the layout the spec names as the authoritative one; it
  panics when a field does not fit a varint) is, after the bytes already in the buffer,
  a type byte in \<open>0x58..0x5f\<close>, that is \<open>0x58\<close> with FIN in bit 0, the length flag in
  bit 1 and the offset flag in bit 2 (never \<open>0x50\<close>), followed by the header fields in
  the order \<open>stream_id\<close> (varint), PTDA (one byte), \<open>ptda_c\<close> (varint), \<open>offset\<close>
  (varint, present iff it is not zero), and finally \<open>pr_data_len\<close> (varint); and
  \<open>parsePRAckNotifyFrame\<close> of that version decodes these bytes, whatever follows them,
  back to the frame that was encoded, provided its flags P, T, D, A are the ones that the
  high nibble of PTDA denotes (and \<open>StreamID\<close> and \<open>Offset\<close> are \<open>int64\<close> values, as
  they are in Go). \<open>Append\<close> of the second version is not covered.
\<close>

theorem PRAckNotifyFrame_Append_wire_layout:
  "PRAckNotifyFrame_Append f b =
     andThen (spec_PR_ACK_NOTIFY_layout (PRAckNotifyFrame_typeByte f) f) (\<lambda>bs. Inr (b @ bs)) \<and>
   PRAckNotifyFrame_typeByte f AND 0xf8 = 0x58 \<and>
   PRAckNotifyFrame_typeByte f \<noteq> 0x50 \<and>
   bit (PRAckNotifyFrame_typeByte f) 0 = pan_Fin f \<and>
   bit (PRAckNotifyFrame_typeByte f) 1 = pan_DataLenPresent f \<and>
   bit (PRAckNotifyFrame_typeByte f) 2 = (pan_Offset f \<noteq> 0) \<and>
   (PRAckNotifyFrame_Append f [] = Inr e \<and> is_int64 (pan_StreamID f) \<and>
    is_int64 (pan_Offset f) \<and> policy_flags_of_PTDA f \<longrightarrow>
      parsePRAckNotifyFrame (e @ rest) = Inr (f, rest))"
proof -
  have "parsePRAckNotifyFrame (e @ rest) = Inr (f, rest)"
    if "PRAckNotifyFrame_Append f [] = Inr e" "is_int64 (pan_StreamID f)"
       "is_int64 (pan_Offset f)" "policy_flags_of_PTDA f"
  proof -
    from that(1) have "spec_PR_ACK_NOTIFY_layout (PRAckNotifyFrame_typeByte f) f = Inr e"
      by (simp add: PRAckNotifyFrame_Append_layout [of f "[]"] andThen_Inr_iff)
    then show ?thesis using that(2-4) by (rule parsePRAckNotifyFrame_layout)
  qed
  then show ?thesis
    using PRAckNotifyFrame_Append_layout [of f b] PRAckNotifyFrame_typeByte_bits [of f]
    by blast
qed

theorem PRAckNotifyFrame_Append_wire_layout_witness:
  "PRAckNotifyFrame_Append c9_frame [] = Inr [0x5a, 0x00, 0x80, 0x00, 0x05] \<and>
   is_int64 (pan_StreamID c9_frame) \<and> is_int64 (pan_Offset c9_frame) \<and>
   policy_flags_of_PTDA c9_frame \<and>
   parsePRAckNotifyFrame ([0x5a, 0x00, 0x80, 0x00, 0x05] @ [0x01]) = Inr (c9_frame, [0x01])"
proof -
  have h: "PRAckNotifyFrame_Append c9_frame [] = Inr [0x5a, 0x00, 0x80, 0x00, 0x05]"
    "is_int64 (pan_StreamID c9_frame)" "is_int64 (pan_Offset c9_frame)"
    "policy_flags_of_PTDA c9_frame"
    by (simp_all add: PRAckNotifyFrame_Append_def c9_frame_def wire_defs is_int64_def
          policy_flags_of_PTDA_def)
  with PRAckNotifyFrame_Append_wire_layout
         [where f = c9_frame and b = "[]" and e = "[0x5a, 0x00, 0x80, 0x00, 0x05]"
            and rest = "[0x01]"]
  show ?thesis by blast
qed

subsection \<open>Completion\<close>

text \<open>The functions that assemble frames, queue retransmissions, close and shut down
  leave \<open>completed\<close> and the number of completion reports as they are.\<close>


lemma completion_view_upd [simp]:
  "completion_view (t\<lparr>dataForWriting := d\<rparr>) = completion_view t"
  "completion_view (t\<lparr>nextFrame := nf\<rparr>) = completion_view t"
  "completion_view (t\<lparr>retransmissionQueue := q\<rparr>) = completion_view t"
  "completion_view (t\<lparr>prAckNotifyRetransmissionQueue := pq\<rparr>) = completion_view t"
  "completion_view (t\<lparr>numOutstandingFrames := n\<rparr>) = completion_view t"
  "completion_view (t\<lparr>writeOffset := w\<rparr>) = completion_view t"
  "completion_view (t\<lparr>flowController := c\<rparr>) = completion_view t"
  "completion_view (t\<lparr>finSent := b\<rparr>) = completion_view t"
  "completion_view (t\<lparr>finishedWriting := b\<rparr>) = completion_view t"
  "completion_view (t\<lparr>canceledWrite := b\<rparr>) = completion_view t"
  "completion_view (t\<lparr>cancelWriteErr := e\<rparr>) = completion_view t"
  "completion_view (t\<lparr>ctxCanceled := b\<rparr>) = completion_view t"
  "completion_view (t\<lparr>closedForShutdown := b\<rparr>) = completion_view t"
  "completion_view (t\<lparr>closeForShutdownErr := e\<rparr>) = completion_view t"
  "completion_view (t\<lparr>deadline := dl\<rparr>) = completion_view t"
  "completion_view (t\<lparr>writeChan := b\<rparr>) = completion_view t"
  by (simp_all add: completion_view_def completions_def)

lemma completion_view_signalWrite [simp]: "completion_view (signalWrite t) = completion_view t"
  by (simp add: signalWrite_def)

lemma completion_view_call [simp]:
  "\<not> isCompletedCall c \<Longrightarrow> completion_view (call_sender c t) = completion_view t"
  by (simp add: completion_view_def completions_def call_sender_def)

lemma Write_iteration_view [simp]:
  "completion_view (snd (Write_iteration now p n s)) = completion_view s"
  by (simp add: Write_iteration_def Let_def split: option.split)

lemma Write_start_view [simp]:
  "completion_view (snd (Write_start now p s)) = completion_view s"
  by (simp add: Write_start_def Write_entry_def)

lemma maybeGetRetransmission_view:
  "maybeGetRetransmission m s = Inr (r, s') \<Longrightarrow> completion_view s' = completion_view s"
  by (auto simp: maybeGetRetransmission_def andThen_Inr_iff Let_def split: list.splits if_splits)

lemma getDataForWriting_view:
  "getDataForWriting f m s = Inr (r, s') \<Longrightarrow> completion_view s' = completion_view s"
  by (auto simp: getDataForWriting_def Let_def split: if_splits)

lemma popNewStreamFrameWithoutBuffer_view:
  "popNewStreamFrameWithoutBuffer f m w s = Inr (r, s') \<Longrightarrow>
   completion_view s' = completion_view s"
  by (auto simp: popNewStreamFrameWithoutBuffer_def andThen_Inr_iff Let_def
           dest: getDataForWriting_view split: if_splits)

lemma popNewStreamFrame_view:
  "popNewStreamFrame m w s = Inr (r, s') \<Longrightarrow> completion_view s' = completion_view s"
proof (cases "nextFrame s")
  case None
  assume "popNewStreamFrame m w s = Inr (r, s')"
  with None show ?thesis
    by (auto simp: popNewStreamFrame_def andThen_Inr_iff Let_def
             dest: popNewStreamFrameWithoutBuffer_view split: if_splits)
next
  case (Some nf)
  assume "popNewStreamFrame m w s = Inr (r, s')"
  with Some show ?thesis
    by (auto simp: popNewStreamFrame_def andThen_Inr_iff Let_def split: if_splits)
qed


lemma popRetransmittedStreamFrame_view:
  "popRetransmittedStreamFrame m s = Inr (r, s') \<Longrightarrow> completion_view s' = completion_view s"
  by (auto simp: popRetransmittedStreamFrame_def andThen_Inr_iff
           dest: maybeGetRetransmission_view split: if_splits)

lemma popNewData_view:
  "popNewData m s = Inr (r, s') \<Longrightarrow> completion_view s' = completion_view s"
proof (cases "len_slice (dataForWriting s) = 0 \<and> nextFrame s = None")
  case True
  assume "popNewData m s = Inr (r, s')"
  with True show ?thesis
    by (auto simp: popNewData_def split: if_splits)
next
  case False
  assume h: "popNewData m s = Inr (r, s')"
  show ?thesis
  proof (cases "SendWindowSize (flowController s) = 0")
    case True
    with False h show ?thesis
      by (auto simp: popNewData_def Let_def split: if_splits prod.splits)
  next
    case nz: False
    with False h obtain f hm s1 f' where
      p: "popNewStreamFrame m (SendWindowSize (flowController s)) s = Inr ((f, hm), s1)"
      and d: "deref f = Inr f'"
      and r: "s' = (let s2 = (if StreamFrame_DataLen f' > 0
                   then s1\<lparr>writeOffset := writeOffset s1 + StreamFrame_DataLen f',
                          flowController :=
                            AddBytesSent (StreamFrame_DataLen f') (flowController s1)\<rparr>
                   else s1) in
                if finishedWriting s2 \<and> dataForWriting s2 = None \<and>
                               nextFrame s2 = None \<and> \<not> finSent s2 then s2\<lparr>finSent := True\<rparr> else s2)"
      by (auto simp: popNewData_def Let_def andThen_Inr_iff)
    from r have "completion_view s' = completion_view s1"
      by (simp add: Let_def)
    with popNewStreamFrame_view [OF p] show ?thesis by simp
  qed
qed

lemma popNewOrRetransmittedStreamFrame_view:
  assumes "popNewOrRetransmittedStreamFrame m s = Inr (r, s')"
  shows "completion_view s' = completion_view s"
proof (cases "canceledWrite s \<or> closeForShutdownErr s \<noteq> None")
  case True
  with assms show ?thesis by (auto simp: popNewOrRetransmittedStreamFrame_def)
next
  case False
  with assms obtain ret s1 where
    a: "popRetransmittedStreamFrame m s = Inr (ret, s1)" and
    b: "(case ret of Some r' \<Rightarrow> Inr (r', s1) | None \<Rightarrow> popNewData m s1) = Inr (r, s')"
    by (auto simp: popNewOrRetransmittedStreamFrame_def andThen_Inr_iff)
  from b have "completion_view s' = completion_view s1"
    by (cases ret) (auto dest: popNewData_view)
  with popRetransmittedStreamFrame_view [OF a] show ?thesis by simp
qed

lemma popStreamFrame_view:
  assumes "popStreamFrame cfg m s = Inr (r, s')"
  shows "completion_view s' = completion_view s"
proof -
  from assms obtain f hm s1 where
    a: "popNewOrRetransmittedStreamFrame
          (if PR_ENABLED cfg then m - (1 + 8) else m) s = Inr ((f, hm), s1)" and
    b: "s' = s1 \<or> s' = s1\<lparr>numOutstandingFrames := numOutstandingFrames s1 + 1\<rparr>"
    by (auto simp: popStreamFrame_def andThen_Inr_iff Let_def split: option.splits if_splits)
  from b have "completion_view s' = completion_view s1" by auto
  with popNewOrRetransmittedStreamFrame_view [OF a] show ?thesis by simp
qed



lemma completion_step_view:
  "completion_view s' = completion_view s \<Longrightarrow> completion_step s s'"
  by (simp add: completion_view_def completion_step_def)

lemma queueRetransmission_view:
  "queueRetransmission f s = Inr s' \<Longrightarrow> completion_view s' = completion_view s"
  by (auto simp: queueRetransmission_def Let_def split: if_splits)

lemma prAckNotifyQueueRetransmission_view:
  "prAckNotifyQueueRetransmission f s = Inr s' \<Longrightarrow> completion_view s' = completion_view s"
  by (auto simp: prAckNotifyQueueRetransmission_def Let_def split: if_splits)

lemma prQueueRetransmission_view:
  "prQueueRetransmission r f s = Inr s' \<Longrightarrow> completion_view s' = completion_view s"
  by (auto simp: prQueueRetransmission_def Let_def
           dest: queueRetransmission_view prAckNotifyQueueRetransmission_view split: if_splits)

lemma OnLost_view:
  "OnLost r fr s = Inr s' \<Longrightarrow> completion_view s' = completion_view s"
  by (cases fr) (auto simp: OnLost_def dest: queueRetransmission_view prQueueRetransmission_view)

lemma Close_view [simp]: "completion_view (snd (Close s)) = completion_view s"
  by (simp add: Close_def Let_def)

lemma closeForShutdown_view [simp]: "completion_view (closeForShutdown e s) = completion_view s"
  by (simp add: closeForShutdown_def Let_def)

lemma updateSendWindow_view [simp]: "completion_view (updateSendWindow l s) = completion_view s"
  by (simp add: updateSendWindow_def Let_def)

lemma SetWriteDeadline_view [simp]: "completion_view (SetWriteDeadline t s) = completion_view s"
  by (simp add: SetWriteDeadline_def)

lemma completions_call_sender [simp]:
  "completions (call_sender c s) = completions s + (if isCompletedCall c then 1 else 0)"
  by (simp add: completions_def call_sender_def)

lemma call_sender_fields [simp]:
  "completed (call_sender c s) = completed s"
  "finSent (call_sender c s) = finSent s"
  "canceledWrite (call_sender c s) = canceledWrite s"
  "numOutstandingFrames (call_sender c s) = numOutstandingFrames s"
  "retransmissionQueue (call_sender c s) = retransmissionQueue s"
  "prAckNotifyRetransmissionQueue (call_sender c s) = prAckNotifyRetransmissionQueue s"
  "streamID (call_sender c s) = streamID s"
  by (simp_all add: call_sender_def)

lemma signalWrite_fields [simp]:
  "completed (signalWrite s) = completed s"
  "finSent (signalWrite s) = finSent s"
  "canceledWrite (signalWrite s) = canceledWrite s"
  "numOutstandingFrames (signalWrite s) = numOutstandingFrames s"
  "retransmissionQueue (signalWrite s) = retransmissionQueue s"
  "prAckNotifyRetransmissionQueue (signalWrite s) = prAckNotifyRetransmissionQueue s"
  "streamID (signalWrite s) = streamID s"
  "completions (signalWrite s) = completions s"
  by (simp_all add: signalWrite_def completions_def)

lemma completions_upd [simp]:
  "completions (s\<lparr>completed := b\<rparr>) = completions s"
  "completions (s\<lparr>numOutstandingFrames := n\<rparr>) = completions s"
  "completions (s\<lparr>retransmissionQueue := q\<rparr>) = completions s"
  "completions (s\<lparr>canceledWrite := b\<rparr>) = completions s"
  "completions (s\<lparr>cancelWriteErr := e\<rparr>) = completions s"
  "completions (s\<lparr>ctxCanceled := b\<rparr>) = completions s"
  by (simp_all add: completions_def)

lemma frameAcked_step: "frameAcked s = Inr s' \<Longrightarrow> completion_step s s'"
  by (auto simp: frameAcked_def isNewlyCompleted_def Let_def completion_step_def
        completion_predicate_def split: if_splits)

lemma prStreamframeAcked_step: "prStreamframeAcked s = Inr s' \<Longrightarrow> completion_step s s'"
  by (auto simp: prStreamframeAcked_def isNewlyCompleted_def Let_def completion_step_def
        completion_predicate_def split: if_splits)

lemma OnAcked_step: "OnAcked fr s = Inr s' \<Longrightarrow> completion_step s s'"
  by (cases fr) (auto simp: OnAcked_def dest: frameAcked_step prStreamframeAcked_step)

lemma cancelWriteImpl_step: "completion_step s (cancelWriteImpl code err s)"
  by (auto simp: cancelWriteImpl_def isNewlyCompleted_def Let_def completion_step_def
        completion_predicate_def split: if_splits)

lemma step_completion_step:
  "step cfg x s = Inr s' \<Longrightarrow> completion_step s s'"
proof (cases x)
  case (OpPopStreamFrame m)
  assume "step cfg x s = Inr s'"
  with OpPopStreamFrame show ?thesis
    by (auto simp: andThen_Inr_iff intro: completion_step_view dest: popStreamFrame_view)
qed (auto simp: CancelWrite_def handleStopSendingFrame_def cancelWriteImpl_step
         intro: completion_step_view OnAcked_step dest: OnLost_view)

lemma reported_once_step:
  "reported_once s \<Longrightarrow> completion_step s s' \<Longrightarrow> reported_once s'"
  by (auto simp: reported_once_def completion_step_def split: if_splits)

lemma reported_once_run:
  "reported_once s \<Longrightarrow> run cfg xs s = Inr s' \<Longrightarrow> reported_once s'"
proof (induction xs arbitrary: s)
  case Nil
  then show ?case by simp
next
  case (Cons x xs)
  from Cons.prems(2) obtain s1 where a: "step cfg x s = Inr s1" and b: "run cfg xs s1 = Inr s'"
    by (auto simp: andThen_Inr_iff)
  from reported_once_step [OF Cons.prems(1) step_completion_step [OF a]]
  have "reported_once s1" .
  from Cons.IH [OF this b] show ?case .
qed

lemma reported_once_new: "reported_once (newSendStream sid fc)"
  by (simp add: reported_once_def newSendStream_def completions_def)


text \<open>
  Claim C6: in every state \<open>s\<close> a run of operations reaches from a new stream, the
  completion has been reported once if \<open>completed\<close> is set and never otherwise; and for
  every operation that takes \<open>s\<close> to \<open>s'\<close>: a completed stream stays completed and
  reports nothing more; if \<open>completed\<close> becomes true, then \<open>(finSent \<or> canceledWrite)\<close>,
  \<open>numOutstandingFrames = 0\<close> and an empty retransmission queue hold in \<open>s'\<close> and the
  completion has been reported exactly once; a stream not completed has reported
  nothing. (A run is a sequence of operations none of which panics.)
\<close>

theorem completed_once_and_only_when_predicate_holds:
  assumes "run cfg xs (newSendStream sid fc) = Inr s" and "step cfg x s = Inr s'"
  shows "completions s \<le> 1 \<and> (completed s \<longleftrightarrow> completions s = 1) \<and>
         (completed s \<longrightarrow> completed s' \<and> completions s' = completions s) \<and>
         (\<not> completed s \<and> completed s' \<longrightarrow> completion_predicate s' \<and> completions s' = 1) \<and>
         (\<not> completed s' \<longrightarrow> completions s' = 0)"
proof -
  have r: "reported_once s"
    using reported_once_run [OF reported_once_new assms(1)] .
  have c: "completion_step s s'"
    using step_completion_step [OF assms(2)] .
  from r c show ?thesis
    by (auto simp: reported_once_def completion_step_def split: if_splits)
qed

theorem completed_once_witness:
  "run defaultPRConfig [OpWrite 0 [1, 2, 3], OpClose, OpPopStreamFrame 1200]
     (newSendStream 0 fc0) = Inr c6_before \<and>
   step defaultPRConfig (OpOnAcked (PRFrame c6_frame)) c6_before = Inr c6_after \<and>
   \<not> completed c6_before \<and> completions c6_before = 0 \<and>
   completed c6_after \<and> completion_predicate c6_after \<and> completions c6_after = 1"
proof -
  have h1: "run defaultPRConfig [OpWrite 0 [1, 2, 3], OpClose, OpPopStreamFrame 1200]
      (newSendStream 0 fc0) = Inr c6_before"
    by (simp add: stream_defs wire_defs defaultPRConfig_def fc0_def c6_before_def)
  have h2: "step defaultPRConfig (OpOnAcked (PRFrame c6_frame)) c6_before = Inr c6_after"
    by (simp add: stream_defs c6_before_def c6_after_def)
  have h3: "\<not> completed c6_before" "completed c6_after"
    by (simp_all add: c6_before_def c6_after_def)
  from completed_once_and_only_when_predicate_holds [OF h1 h2] h3
  have "completions c6_before = 0 \<and> completion_predicate c6_after \<and> completions c6_after = 1"
    by simp
  with h1 h2 h3 show ?thesis by simp
qed

subsection \<open>The notify queue and completion\<close>

lemmas c10_defs = c10_config_def c10_frameA_def c10_frameB_def c10_notifyA_def c10_notifyB_def
  c10_sent_def c10_completed_def c10_acked_def c10_stuck_def c10_queued_def

lemma c10_runs:
  "run c10_config [OpWrite 0 [1], OpPopStreamFrame 1200, OpWrite 0 [2], OpClose,
                   OpPopStreamFrame 1200] (newSendStream 0 fc0) = Inr c10_sent"
  "run c10_config [OpOnLost 0 (PRFrame c10_frameA), OpOnAcked (PRFrame c10_frameB)] c10_sent =
     Inr c10_completed"
  "run c10_config [OpOnAcked (PRFrame c10_frameA), OpOnLost 0 (PRFrame c10_frameB)] c10_sent =
     Inr c10_stuck"
  "run c10_config [OpOnLost 0 (PRFrame c10_frameA), OpOnLost 200 (PRFrame c10_frameB)] c10_sent =
     Inr c10_queued"
  by (simp_all add: stream_defs wire_defs c10_defs fc0_def)

lemma c10_facts:
  "completed c10_completed" "completions c10_completed = 1"
  "prAckNotifyRetransmissionQueue c10_completed = [c10_notifyA]"
  "completion_predicate c10_stuck" "\<not> completed c10_stuck" "completions c10_stuck = 0"
  by (simp_all add: c10_defs completions_def completion_predicate_def)

lemma isNewlyCompleted_ignores_notify_queue:
  "isNewlyCompleted (s\<lparr>prAckNotifyRetransmissionQueue := q\<rparr>) =
     (fst (isNewlyCompleted s), (snd (isNewlyCompleted s))\<lparr>prAckNotifyRetransmissionQueue := q\<rparr>)"
  by (simp add: isNewlyCompleted_def)

lemma isNewlyCompleted_iff:
  "fst (isNewlyCompleted s) \<longleftrightarrow> completion_predicate s \<and> \<not> completed s"
  by (simp add: isNewlyCompleted_def completion_predicate_def)

lemma prAckNotifyQueueRetransmission_effect:
  "prAckNotifyQueueRetransmission f s = Inr s' \<Longrightarrow>
   completed s' = completed s \<and> completions s' = completions s \<and>
   (\<not> canceledWrite s \<longrightarrow>
      numOutstandingFrames s' = numOutstandingFrames s - 1 \<and>
      prAckNotifyRetransmissionQueue s' =
        prAckNotifyRetransmissionQueue s @ [f\<lparr>pan_DataLenPresent := True\<rparr>])"
  by (auto simp: prAckNotifyQueueRetransmission_def Let_def completions_def call_sender_def
           split: if_splits)

lemma cancelWriteImpl_queues:
  "prAckNotifyRetransmissionQueue (cancelWriteImpl code err s) =
     prAckNotifyRetransmissionQueue s \<and>
   (\<not> canceledWrite s \<longrightarrow> retransmissionQueue (cancelWriteImpl code err s) = [])"
  by (simp add: cancelWriteImpl_def isNewlyCompleted_def Let_def)


text \<open>
  Claim C10: the completion predicate does not look at the notify queue (changing the
  queue changes neither the answer of \<open>isNewlyCompleted\<close> nor what it does to the
  stream, and the answer is the completion predicate on a stream not yet completed), so
  a stream is reported completed while a PR\_ACK\_NOTIFY waits (the run to
  \<open>c10_completed\<close>); queueing a notification decrements \<open>numOutstandingFrames\<close>
  and leaves \<open>completed\<close> and the reports as they are, also when the completion
  predicate holds afterwards (the run to \<open>c10_stuck\<close>); and \<open>cancelWriteImpl\<close>
  empties the retransmission queue and leaves the notify queue as it is.
\<close>

theorem notify_queue_never_gates_completion:
  "isNewlyCompleted (s\<lparr>prAckNotifyRetransmissionQueue := q\<rparr>) =
     (fst (isNewlyCompleted s),
      (snd (isNewlyCompleted s))\<lparr>prAckNotifyRetransmissionQueue := q\<rparr>) \<and>
   (fst (isNewlyCompleted s) \<longleftrightarrow> completion_predicate s \<and> \<not> completed s) \<and>
   (run c10_config [OpWrite 0 [1], OpPopStreamFrame 1200, OpWrite 0 [2], OpClose,
                    OpPopStreamFrame 1200] (newSendStream 0 fc0) = Inr c10_sent \<and>
    run c10_config [OpOnLost 0 (PRFrame c10_frameA), OpOnAcked (PRFrame c10_frameB)] c10_sent =
      Inr c10_completed \<and>
    completed c10_completed \<and> completions c10_completed = 1 \<and>
    prAckNotifyRetransmissionQueue c10_completed = [c10_notifyA]) \<and>
   (prAckNotifyQueueRetransmission f s = Inr s' \<longrightarrow>
      completed s' = completed s \<and> completions s' = completions s \<and>
      (\<not> canceledWrite s \<longrightarrow>
         numOutstandingFrames s' = numOutstandingFrames s - 1 \<and>
         prAckNotifyRetransmissionQueue s' =
           prAckNotifyRetransmissionQueue s @ [f\<lparr>pan_DataLenPresent := True\<rparr>])) \<and>
   (run c10_config [OpOnAcked (PRFrame c10_frameA), OpOnLost 0 (PRFrame c10_frameB)] c10_sent =
      Inr c10_stuck \<and>
    completion_predicate c10_stuck \<and> \<not> completed c10_stuck \<and> completions c10_stuck = 0) \<and>
   prAckNotifyRetransmissionQueue (cancelWriteImpl code err s) =
     prAckNotifyRetransmissionQueue s \<and>
   (\<not> canceledWrite s \<longrightarrow> retransmissionQueue (cancelWriteImpl code err s) = [])"
  using isNewlyCompleted_ignores_notify_queue [where s = s and q = q] isNewlyCompleted_iff [of s]
    c10_runs c10_facts prAckNotifyQueueRetransmission_effect [of f s s']
    cancelWriteImpl_queues [of code err s]
  by simp

theorem notify_queue_never_gates_completion_witness:
  "prAckNotifyQueueRetransmission c10_notifyB c10_acked = Inr c10_stuck \<and>
   \<not> canceledWrite c10_acked \<and> \<not> completed c10_acked \<and>
   completion_predicate c10_stuck \<and> \<not> completed c10_stuck \<and> completions c10_stuck = 0 \<and>
   numOutstandingFrames c10_stuck = 0 \<and>
   \<not> canceledWrite c10_queued \<and> retransmissionQueue c10_queued \<noteq> [] \<and>
   retransmissionQueue (cancelWriteImpl 7 (ErrWriteCanceled 0 7) c10_queued) = [] \<and>
   prAckNotifyRetransmissionQueue (cancelWriteImpl 7 (ErrWriteCanceled 0 7) c10_queued) =
     [c10_notifyA] \<and>
   completed (cancelWriteImpl 7 (ErrWriteCanceled 0 7) c10_queued)"
proof -
  have h1: "prAckNotifyQueueRetransmission c10_notifyB c10_acked = Inr c10_stuck"
    by (simp add: stream_defs c10_defs)
  have h2: "\<not> canceledWrite c10_acked" "\<not> completed c10_acked"
    "numOutstandingFrames c10_acked = 1" "completions c10_acked = 0"
    by (simp_all add: c10_defs completions_def)
  have h3: "\<not> canceledWrite c10_queued" "retransmissionQueue c10_queued \<noteq> []"
    "prAckNotifyRetransmissionQueue c10_queued = [c10_notifyA]"
    by (simp_all add: c10_defs)
  have h4: "completed (cancelWriteImpl 7 (ErrWriteCanceled 0 7) c10_queued)"
    by (simp add: stream_defs c10_defs)
  from notify_queue_never_gates_completion [where s = c10_acked and f = c10_notifyB and s' = c10_stuck] h1 h2
  have a: "completion_predicate c10_stuck \<and> \<not> completed c10_stuck \<and>
      completions c10_stuck = 0 \<and> numOutstandingFrames c10_stuck = 0"
    by simp
  from notify_queue_never_gates_completion [where s = c10_queued and code = 7 and err = "ErrWriteCanceled 0 7"] h3
  have b: "retransmissionQueue (cancelWriteImpl 7 (ErrWriteCanceled 0 7) c10_queued) = [] \<and>
      prAckNotifyRetransmissionQueue (cancelWriteImpl 7 (ErrWriteCanceled 0 7) c10_queued) =
        [c10_notifyA]"
    by simp
  from h1 h2 h3 h4 a b show ?thesis by simp
qed

subsection \<open>Retransmissions first\<close>




lemma StreamFrame_MaybeSplitOffFrame_cases:
  assumes "StreamFrame_MaybeSplitOffFrame f b = Inr (head, needsSplit, tail)"
  shows "(\<not> needsSplit \<longrightarrow> head = None \<and> tail = f) \<and>
         (head = None \<longrightarrow> tail = f) \<and>
         (\<forall>h. head = Some h \<longrightarrow>
            needsSplit \<and> sf_Data h @ sf_Data tail = sf_Data f \<and>
            sf_Offset h = sf_Offset f \<and>
            sf_Offset tail = sf_Offset f + StreamFrame_DataLen h \<and>
            \<not> sf_Fin h \<and> sf_Fin tail = sf_Fin f \<and>
            sf_StreamID h = sf_StreamID f \<and> sf_StreamID tail = sf_StreamID f)"
  using assms
  by (auto simp: StreamFrame_MaybeSplitOffFrame_def andThen_Inr_iff Let_def GetStreamFrame_def
        StreamFrame_DataLen_def split: if_splits)

lemma popNewOrRetransmittedStreamFrame_retransmission:
  assumes "\<not> canceledWrite s" and "closeForShutdownErr s = None"
    and "retransmissionQueue s = f # rest"
  shows "popNewOrRetransmittedStreamFrame b s =
           andThen (StreamFrame_MaybeSplitOffFrame f b) (\<lambda>(head, needsSplit, tail).
             if needsSplit then Inr ((head, True), s\<lparr>retransmissionQueue := tail # rest\<rparr>)
             else Inr ((Some f, True), s\<lparr>retransmissionQueue := rest\<rparr>))"
proof (cases "StreamFrame_MaybeSplitOffFrame f b")
  case (Inl e)
  with assms show ?thesis
    by (simp add: popNewOrRetransmittedStreamFrame_def popRetransmittedStreamFrame_def
          maybeGetRetransmission_def)
next
  case (Inr r)
  obtain head needsSplit tail where r: "r = (head, needsSplit, tail)"
    by (cases r) auto
  from StreamFrame_MaybeSplitOffFrame_cases [OF Inr [unfolded r]]
  have t: "\<not> needsSplit \<longrightarrow> head = None \<and> tail = f" by blast
  from assms Inr r t show ?thesis
    by (cases head)
       (auto simp: popNewOrRetransmittedStreamFrame_def popRetransmittedStreamFrame_def
          maybeGetRetransmission_def Let_def)
qed


lemmas c8_defs = c8_sf_def c8_stream_def c8_head_def c8_tail_def c1_stream_def c1_config_def
  c1_frame_def

text \<open>
  Claim C8 as stated (when the head of the retransmission queue is popped whole, the
  returned \<open>has_more\<close> says whether the queue is still non-empty) fails: with one frame
  queued that fits the budget, \<open>popStreamFrame\<close> returns that frame with
  \<open>has_more = true\<close> and leaves the queue empty.
\<close>

theorem popStreamFrame_has_more_counterexample:
  "\<not> canceledWrite c8_stream \<and> closeForShutdownErr c8_stream = None \<and>
   retransmissionQueue c8_stream = [c8_sf] \<and>
   popStreamFrame c1_config 1200 c8_stream =
     Inr ((Some (PRFrame c1_frame), True),
          c8_stream\<lparr>retransmissionQueue := [], numOutstandingFrames := 1\<rparr>) \<and>
   (retransmissionQueue (c8_stream\<lparr>retransmissionQueue := [], numOutstandingFrames := 1\<rparr>) \<noteq> [])
     = False"
  by (simp add: stream_defs wire_defs c8_defs)

text \<open>
  Claim C8, amended: on a stream that is not cancelled, has no shutdown error and whose
  retransmission queue is \<open>f # rest\<close>, \<open>popStreamFrame\<close> is decided by the split of
  \<open>f\<close> against the budget (\<open>maxBytes\<close>, less 9 bytes when PR is enabled) alone, new
  data is not looked at, and \<open>has_more\<close> is true in every case: if no split is needed,
  \<open>f\<close> is popped and handed out; if a split is needed and the budget leaves room for
  data, the head slice is handed out and the tail stays at the front of the queue; if
  the budget is too small for any data, no frame is handed out and the stream is
  unchanged. A head and its tail make up the data of \<open>f\<close>, the head at the offset of
  \<open>f\<close> without FIN, the tail behind it with the FIN of \<open>f\<close>. (It panics exactly when
  the split panics.)
\<close>

theorem popStreamFrame_retransmission_first:
  assumes "\<not> canceledWrite s" and "closeForShutdownErr s = None"
    and "retransmissionQueue s = f # rest"
  shows "popStreamFrame cfg maxBytes s =
           andThen (StreamFrame_MaybeSplitOffFrame f
                      (if PR_ENABLED cfg then maxBytes - (1 + 8) else maxBytes))
             (\<lambda>(head, needsSplit, tail).
                if \<not> needsSplit then
                  Inr ((Some (wrapStreamFrame cfg f), True),
                       s\<lparr>retransmissionQueue := rest,
                         numOutstandingFrames := numOutstandingFrames s + 1\<rparr>)
                else
                  case head of
                    None \<Rightarrow> Inr ((None, True), s)
                  | Some h \<Rightarrow>
                      Inr ((Some (wrapStreamFrame cfg h), True),
                           s\<lparr>retransmissionQueue := tail # rest,
                             numOutstandingFrames := numOutstandingFrames s + 1\<rparr>)) \<and>
         (StreamFrame_MaybeSplitOffFrame f b = Inr (Some h, needsSplit, tail) \<longrightarrow>
            needsSplit \<and> sf_Data h @ sf_Data tail = sf_Data f \<and>
            sf_Offset h = sf_Offset f \<and>
            sf_Offset tail = sf_Offset f + StreamFrame_DataLen h \<and>
            \<not> sf_Fin h \<and> sf_Fin tail = sf_Fin f)"
proof
  let ?b = "if PR_ENABLED cfg then maxBytes - (1 + 8) else maxBytes"
  show "popStreamFrame cfg maxBytes s =
           andThen (StreamFrame_MaybeSplitOffFrame f ?b)
             (\<lambda>(head, needsSplit, tail).
                if \<not> needsSplit then
                  Inr ((Some (wrapStreamFrame cfg f), True),
                       s\<lparr>retransmissionQueue := rest,
                         numOutstandingFrames := numOutstandingFrames s + 1\<rparr>)
                else
                  case head of
                    None \<Rightarrow> Inr ((None, True), s)
                  | Some h \<Rightarrow>
                      Inr ((Some (wrapStreamFrame cfg h), True),
                           s\<lparr>retransmissionQueue := tail # rest,
                             numOutstandingFrames := numOutstandingFrames s + 1\<rparr>))"
  proof (cases "StreamFrame_MaybeSplitOffFrame f ?b")
    case (Inl e)
    with popNewOrRetransmittedStreamFrame_retransmission [OF assms, of ?b]
    show ?thesis by (simp add: popStreamFrame_def Let_def)
  next
    case (Inr r)
    obtain head needsSplit tail where r: "r = (head, needsSplit, tail)"
      by (cases r) auto
    from StreamFrame_MaybeSplitOffFrame_cases [OF Inr [unfolded r]]
    have t: "head = None \<longrightarrow> tail = f" by blast
    from popNewOrRetransmittedStreamFrame_retransmission [OF assms, of ?b] Inr r t assms(3)
    show ?thesis
      by (cases head) (auto simp: popStreamFrame_def Let_def)
  qed
next
  show "StreamFrame_MaybeSplitOffFrame f b = Inr (Some h, needsSplit, tail) \<longrightarrow>
            needsSplit \<and> sf_Data h @ sf_Data tail = sf_Data f \<and>
            sf_Offset h = sf_Offset f \<and>
            sf_Offset tail = sf_Offset f + StreamFrame_DataLen h \<and>
            \<not> sf_Fin h \<and> sf_Fin tail = sf_Fin f"
    using StreamFrame_MaybeSplitOffFrame_cases [of f b "Some h" needsSplit tail] by blast
qed

theorem popStreamFrame_retransmission_first_witness:
  "popStreamFrame c1_config 1200 c8_stream =
     Inr ((Some (wrapStreamFrame c1_config c8_sf), True),
          c8_stream\<lparr>retransmissionQueue := [], numOutstandingFrames := 1\<rparr>) \<and>
   popStreamFrame c1_config 15 c8_stream =
     Inr ((Some (wrapStreamFrame c1_config c8_head), True),
          c8_stream\<lparr>retransmissionQueue := [c8_tail], numOutstandingFrames := 1\<rparr>) \<and>
   sf_Data c8_head @ sf_Data c8_tail = sf_Data c8_sf \<and>
   popStreamFrame c1_config 10 c8_stream = Inr ((None, True), c8_stream)"
proof -
  have g: "\<not> canceledWrite c8_stream" "closeForShutdownErr c8_stream = None"
    "retransmissionQueue c8_stream = c8_sf # []" "numOutstandingFrames c8_stream = 0"
    by (simp_all add: c8_defs)
  have m: "StreamFrame_MaybeSplitOffFrame c8_sf 1191 = Inr (None, False, c8_sf)"
    "StreamFrame_MaybeSplitOffFrame c8_sf 6 = Inr (Some c8_head, True, c8_tail)"
    "StreamFrame_MaybeSplitOffFrame c8_sf 1 = Inr (None, True, c8_sf)"
    by (simp_all add: wire_defs c8_defs)
  have p: "PR_ENABLED c1_config" by (simp add: c1_config_def)
  from popStreamFrame_retransmission_first [OF g(1-3), of c1_config 1200 6 c8_head True c8_tail] m p g(4)
  have a: "popStreamFrame c1_config 1200 c8_stream =
     Inr ((Some (wrapStreamFrame c1_config c8_sf), True),
          c8_stream\<lparr>retransmissionQueue := [], numOutstandingFrames := 1\<rparr>) \<and>
     sf_Data c8_head @ sf_Data c8_tail = sf_Data c8_sf"
    by simp
  from popStreamFrame_retransmission_first [OF g(1-3), of c1_config 15 6 c8_head True c8_tail] m p g(4)
  have b: "popStreamFrame c1_config 15 c8_stream =
     Inr ((Some (wrapStreamFrame c1_config c8_head), True),
          c8_stream\<lparr>retransmissionQueue := [c8_tail], numOutstandingFrames := 1\<rparr>)"
    by simp
  from popStreamFrame_retransmission_first [OF g(1-3), of c1_config 10 6 c8_head True c8_tail] m p
  have c: "popStreamFrame c1_config 10 c8_stream = Inr ((None, True), c8_stream)"
    by simp
  from a b c show ?thesis by simp
qed

end
